theory Spec2Isabelle
  imports Main "HOL-Library.Multiset"
begin

section \<open>Entity model (types.ts)\<close>

text \<open>
  The five interfaces of \<^verbatim>\<open>types.ts\<close>. Record fields are global constants in
  Isabelle, so the field names of the source (\<^verbatim>\<open>id\<close>, \<^verbatim>\<open>status\<close>,
  \<^verbatim>\<open>timestamp\<close>, which several interfaces share) carry a one-letter prefix naming
  their interface. A JavaScript \<^verbatim>\<open>number\<close> holding \<^verbatim>\<open>Date.now()\<close> is an
  \<^typ>\<open>int\<close>; a \<^verbatim>\<open>string\<close> is a \<^typ>\<open>string\<close>.
\<close>

datatype presence = Online | Offline

record user =
  u_id :: string
  u_username :: string
  u_passwordHash :: string
  u_bio :: string
  u_avatar :: "string option"
  u_status :: presence
  u_lastSeen :: int
  u_typingTo :: "string option option"
    \<comment> \<open>\<^verbatim>\<open>typingTo?: string | null\<close>: \<open>None\<close> is an absent field, \<open>Some None\<close> is null\<close>

text \<open>
  \<^verbatim>\<open>Partial<User>\<close>: every field optional; \<open>None\<close> is a field the object does
  not have.
\<close>

record user_updates =
  upd_id :: "string option"
  upd_username :: "string option"
  upd_passwordHash :: "string option"
  upd_bio :: "string option"
  upd_avatar :: "string option option"
  upd_status :: "presence option"
  upd_lastSeen :: "int option"
  upd_typingTo :: "string option option"

text \<open>
  \<^verbatim>\<open>status: 'pending' | 'accepted' | 'rejected'\<close>; the second parameter of
  \<^verbatim>\<open>handleFriendRequest\<close> has the type \<^verbatim>\<open>'accepted' | 'rejected'\<close>, which is the
  type \<open>resolution\<close>.
\<close>

datatype resolution = Accepted | Rejected

datatype req_status = Pending | Resolved resolution

record friend_request =
  r_id :: string
  r_fromId :: string
  r_toId :: string
  r_status :: req_status
  r_timestamp :: int

record friendship =
  f_id :: string
  f_user1Id :: string
  f_user2Id :: string
  f_createdAt :: int

record message =
  m_id :: string
  m_senderId :: string
  m_receiverId :: string
  m_content :: string
  m_timestamp :: int
  m_isRead :: bool

record vault_entry =
  v_username :: string
  v_passwordHash :: string
  v_lastLogin :: int

section \<open>JavaScript library functions the source calls\<close>

text \<open>\<^verbatim>\<open>Array.prototype.findIndex\<close>: the first index whose element satisfies the
  predicate; \<open>None\<close> stands for the result \<open>-1\<close>.\<close>

fun findIndex :: "('a \<Rightarrow> bool) \<Rightarrow> 'a list \<Rightarrow> nat option" where
  "findIndex P [] = None"
| "findIndex P (x # xs) =
     (if P x then Some 0 else (case findIndex P xs of None \<Rightarrow> None | Some i \<Rightarrow> Some (Suc i)))"

text \<open>\<^verbatim>\<open>Array.prototype.find(...) || null\<close>.\<close>

fun find_first :: "('a \<Rightarrow> bool) \<Rightarrow> 'a list \<Rightarrow> 'a option" where
  "find_first P [] = None"
| "find_first P (x # xs) = (if P x then Some x else find_first P xs)"

text \<open>\<^verbatim>\<open>String.prototype.toLowerCase\<close> on the letters A to Z; every other character is
  kept. JavaScript also folds the cased letters outside ASCII; the names in the
  statements below are ASCII.\<close>

definition lower_char :: "char \<Rightarrow> char" where
  "lower_char c =
     (let n = (of_char c :: nat) in if 65 \<le> n \<and> n \<le> 90 then char_of (n + 32) else c)"

definition toLowerCase :: "string \<Rightarrow> string" where
  "toLowerCase s = map lower_char s"

text \<open>The order of the default \<^verbatim>\<open>Array.prototype.sort\<close> on strings: code units
  compared from the left, a proper prefix first.\<close>

fun str_lt :: "string \<Rightarrow> string \<Rightarrow> bool" where
  "str_lt [] [] = False"
| "str_lt [] (y # ys) = True"
| "str_lt (x # xs) [] = False"
| "str_lt (x # xs) (y # ys) =
     (if (of_char x :: nat) < of_char y then True
      else if (of_char y :: nat) < of_char x then False
      else str_lt xs ys)"

text \<open>\<^verbatim>\<open>[a, b].sort().join('_')\<close>, the deterministic Friendship id.\<close>

definition sorted_pair_id :: "string \<Rightarrow> string \<Rightarrow> string" where
  "sorted_pair_id a b = (if str_lt b a then b @ ''_'' @ a else a @ ''_'' @ b)"

text \<open>\<^verbatim>\<open>Array.prototype.sort(cmp)\<close>: a stable sort; an element moves in front of the
  elements that followed it only where the comparator is positive.\<close>

fun insert_cmp :: "('a \<Rightarrow> 'a \<Rightarrow> int) \<Rightarrow> 'a \<Rightarrow> 'a list \<Rightarrow> 'a list" where
  "insert_cmp cmp x [] = [x]"
| "insert_cmp cmp x (y # ys) = (if cmp x y > 0 then y # insert_cmp cmp x ys else x # y # ys)"

fun sort_cmp :: "('a \<Rightarrow> 'a \<Rightarrow> int) \<Rightarrow> 'a list \<Rightarrow> 'a list" where
  "sort_cmp cmp [] = []"
| "sort_cmp cmp (x # xs) = insert_cmp cmp x (sort_cmp cmp xs)"

text \<open>\<^verbatim>\<open>String.prototype.includes\<close>.\<close>

fun starts_with :: "string \<Rightarrow> string \<Rightarrow> bool" where
  "starts_with s [] = True"
| "starts_with [] (p # ps) = False"
| "starts_with (c # cs) (p # ps) = (c = p \<and> starts_with cs ps)"

fun includes_str :: "string \<Rightarrow> string \<Rightarrow> bool" where
  "includes_str [] p = (p = [])"
| "includes_str (c # cs) p = (starts_with (c # cs) p \<or> includes_str cs p)"

section \<open>The process state\<close>

text \<open>
  The four collections of the Local Simulated Store are the \<^verbatim>\<open>localStorage\<close> entries
  \<^verbatim>\<open>mock_users\<close>, \<^verbatim>\<open>mock_messages\<close>, \<^verbatim>\<open>mock_requests\<close> and
  \<^verbatim>\<open>mock_friendships\<close>, each a JSON array.
\<close>

datatype collection = Users | Messages | Requests | Friendships

text \<open>The messages posted on \<^verbatim>\<open>nexusChannel\<close>.\<close>

datatype event =
    Sync collection
  | UserUpdate string user_updates
  | NewMsg message

text \<open>What a subscription was opened for, and what its callback receives.\<close>

datatype sub_spec =
    SubUser string
  | SubFriends string
  | SubMessages string string
  | SubRequests string

datatype payload =
    PUser user
  | PFriends "user list"
  | PMessages "message list"
  | PRequests "friend_request list"

text \<open>
  The remote store is a service outside the repository. The model keeps the writes the
  code has issued to it and that returned, in order; what a remote call answers is an
  input of the operation that makes it.
\<close>

datatype remote_write =
    SetUser string user
  | UpdateUser string user_updates
  | SetMessage string message
  | BatchMarkRead "string list"
  | SetRequest string friend_request
  | UpdateRequestStatus string resolution
  | SetFriendship string friendship

datatype 'a outcome = Throws | Returns 'a

text \<open>
  A listener is (registration number, what it is subscribed to, the caller's callback).
  \<open>delivered\<close> is the trace of callback invocations, oldest first.
\<close>

type_synonym listener = "nat \<times> sub_spec \<times> nat"

record state =
  useMock :: bool
  users :: "user list"
  messages :: "message list"
  requests :: "friend_request list"
  friendships :: "friendship list"
  vault :: "vault_entry list"
  posted :: "event list"
  listeners :: "listener list"
  remote_listeners :: "listener list"
  delivered :: "(nat \<times> payload) list"
  next_handle :: nat
  remote_log :: "remote_write list"

section \<open>mockStore and mockDb\<close>

text \<open>\<^verbatim>\<open>mockStore.set(key, data)\<close>: replace the collection, then post \<open>sync\<close>.\<close>

definition set_users :: "user list \<Rightarrow> state \<Rightarrow> state" where
  "set_users us s = s\<lparr>users := us, posted := posted s @ [Sync Users]\<rparr>"

definition set_messages :: "message list \<Rightarrow> state \<Rightarrow> state" where
  "set_messages ms s = s\<lparr>messages := ms, posted := posted s @ [Sync Messages]\<rparr>"

definition set_requests :: "friend_request list \<Rightarrow> state \<Rightarrow> state" where
  "set_requests rs s = s\<lparr>requests := rs, posted := posted s @ [Sync Requests]\<rparr>"

definition set_friendships :: "friendship list \<Rightarrow> state \<Rightarrow> state" where
  "set_friendships fs s = s\<lparr>friendships := fs, posted := posted s @ [Sync Friendships]\<rparr>"

definition postMessage :: "event \<Rightarrow> state \<Rightarrow> state" where
  "postMessage e s = s\<lparr>posted := posted s @ [e]\<rparr>"

definition mockDb_getUser :: "state \<Rightarrow> string \<Rightarrow> user option" where
  "mockDb_getUser s uid = find_first (\<lambda>u. u_id u = uid) (users s)"

definition mockDb_getUserByUsername :: "state \<Rightarrow> string \<Rightarrow> user option" where
  "mockDb_getUserByUsername s name =
     find_first (\<lambda>u. toLowerCase (u_username u) = toLowerCase name) (users s)"

definition mockDb_saveUser :: "state \<Rightarrow> user \<Rightarrow> state" where
  "mockDb_saveUser s usr =
     (case findIndex (\<lambda>u. u_id u = u_id usr) (users s) of
        Some idx \<Rightarrow> set_users ((users s)[idx := usr]) s
      | None \<Rightarrow> set_users (users s @ [usr]) s)"

text \<open>\<^verbatim>\<open>{ ...users[idx], ...updates }\<close>.\<close>

definition merge_user :: "user \<Rightarrow> user_updates \<Rightarrow> user" where
  "merge_user u upd =
     \<lparr> u_id = (case upd_id upd of None \<Rightarrow> u_id u | Some v \<Rightarrow> v),
       u_username = (case upd_username upd of None \<Rightarrow> u_username u | Some v \<Rightarrow> v),
       u_passwordHash = (case upd_passwordHash upd of None \<Rightarrow> u_passwordHash u | Some v \<Rightarrow> v),
       u_bio = (case upd_bio upd of None \<Rightarrow> u_bio u | Some v \<Rightarrow> v),
       u_avatar = (case upd_avatar upd of None \<Rightarrow> u_avatar u | Some v \<Rightarrow> v),
       u_status = (case upd_status upd of None \<Rightarrow> u_status u | Some v \<Rightarrow> v),
       u_lastSeen = (case upd_lastSeen upd of None \<Rightarrow> u_lastSeen u | Some v \<Rightarrow> v),
       u_typingTo = (case upd_typingTo upd of None \<Rightarrow> u_typingTo u | Some v \<Rightarrow> Some v) \<rparr>"

definition mockDb_updateUserStatus :: "state \<Rightarrow> string \<Rightarrow> user_updates \<Rightarrow> state" where
  "mockDb_updateUserStatus s userId updates =
     (case findIndex (\<lambda>u. u_id u = userId) (users s) of
        Some idx \<Rightarrow>
          postMessage (UserUpdate userId updates)
            (set_users ((users s)[idx := merge_user (users s ! idx) updates]) s)
      | None \<Rightarrow> s)"

definition mockDb_sendMessage :: "state \<Rightarrow> message \<Rightarrow> state" where
  "mockDb_sendMessage s msg = postMessage (NewMsg msg) (set_messages (messages s @ [msg]) s)"

definition to_mark :: "string \<Rightarrow> string \<Rightarrow> message \<Rightarrow> bool" where
  "to_mark userId senderId m \<longleftrightarrow>
     m_receiverId m = userId \<and> m_senderId m = senderId \<and> \<not> m_isRead m"

definition mockDb_markMessagesAsRead :: "state \<Rightarrow> string \<Rightarrow> string \<Rightarrow> state" where
  "mockDb_markMessagesAsRead s userId senderId =
     (let msgs = map (\<lambda>m. if to_mark userId senderId m then m\<lparr>m_isRead := True\<rparr> else m)
                     (messages s);
          changed = list_ex (to_mark userId senderId) (messages s)
      in if changed then set_messages msgs s else s)"

definition mockDb_sendFriendRequest :: "state \<Rightarrow> friend_request \<Rightarrow> state" where
  "mockDb_sendFriendRequest s req = set_requests (requests s @ [req]) s"

text \<open>\<open>now\<close> is the value \<^verbatim>\<open>Date.now()\<close> returns.\<close>

definition mockDb_handleFriendRequest ::
  "state \<Rightarrow> string \<Rightarrow> resolution \<Rightarrow> int \<Rightarrow> state" where
  "mockDb_handleFriendRequest s requestId status now =
     (case findIndex (\<lambda>r. r_id r = requestId) (requests s) of
        None \<Rightarrow> s
      | Some idx \<Rightarrow>
          (let req = (requests s ! idx)\<lparr>r_status := Resolved status\<rparr>;
               s1 = set_requests ((requests s)[idx := req]) s
           in if status = Accepted
              then set_friendships
                     (friendships s1 @
                        [\<lparr> f_id = sorted_pair_id (r_fromId req) (r_toId req),
                           f_user1Id = r_fromId req,
                           f_user2Id = r_toId req,
                           f_createdAt = now \<rparr>]) s1
              else s1))"

section \<open>Module initialisation and the hybrid db\<close>

text \<open>
  \<^verbatim>\<open>let useMock = !firebaseConfig.apiKey || firebaseConfig.apiKey.includes("Placeholder")\<close>
  followed by the guarded initialisation. \<open>apiKey\<close> is \<open>None\<close> when the environment
  variable is undefined; \<open>init_throws\<close> says whether \<^verbatim>\<open>initializeApp\<close> or
  \<^verbatim>\<open>getFirestore\<close> throws.
\<close>

definition init_useMock :: "string option \<Rightarrow> bool \<Rightarrow> bool" where
  "init_useMock apiKey init_throws =
     (let useMock0 = (case apiKey of None \<Rightarrow> True
                                   | Some k \<Rightarrow> k = [] \<or> includes_str k ''Placeholder'')
      in if \<not> useMock0 \<and> init_throws then True else useMock0)"

text \<open>The process right after the module is loaded, on an empty \<^verbatim>\<open>localStorage\<close>.\<close>

definition module_init :: "string option \<Rightarrow> bool \<Rightarrow> state" where
  "module_init apiKey init_throws =
     \<lparr> useMock = init_useMock apiKey init_throws,
       users = [], messages = [], requests = [], friendships = [], vault = [],
       posted = [], listeners = [], remote_listeners = [], delivered = [],
       next_handle = 0, remote_log = [] \<rparr>"

definition remote_wrote :: "remote_write \<Rightarrow> state \<Rightarrow> state" where
  "remote_wrote w s = s\<lparr>remote_log := remote_log s @ [w]\<rparr>"

text \<open>
  Every operation of \<^verbatim>\<open>db\<close> takes, after the state, what each remote call it may make
  answers: \<open>Throws\<close> when the call rejects or throws, \<open>Returns v\<close> otherwise. The
  operation gives back what its caller observes (\<open>Throws\<close> would be an exception that
  leaves the operation) and the new state.
\<close>

definition db_getUser ::
  "state \<Rightarrow> user option outcome \<Rightarrow> string \<Rightarrow> user option outcome \<times> state" where
  "db_getUser s getDoc ident =
     (if useMock s then (Returns (mockDb_getUser s ident), s)
      else case getDoc of
             Returns snap \<Rightarrow> (Returns snap, s)
           | Throws \<Rightarrow> (let s' = s\<lparr>useMock := True\<rparr> in (Returns (mockDb_getUser s' ident), s')))"

text \<open>The query is \<^verbatim>\<open>where('username', '==', username)\<close>; \<open>getDocs\<close> is the data of
  the documents it answers.\<close>

definition db_getUserByUsername ::
  "state \<Rightarrow> user list outcome \<Rightarrow> string \<Rightarrow> user option outcome \<times> state" where
  "db_getUserByUsername s getDocs name =
     (if useMock s then (Returns (mockDb_getUserByUsername s name), s)
      else case getDocs of
             Returns docs \<Rightarrow> (Returns (case docs of [] \<Rightarrow> None | d # _ \<Rightarrow> Some d), s)
           | Throws \<Rightarrow>
               (let s' = s\<lparr>useMock := True\<rparr> in (Returns (mockDb_getUserByUsername s' name), s')))"

definition db_saveUser :: "state \<Rightarrow> unit outcome \<Rightarrow> user \<Rightarrow> unit outcome \<times> state" where
  "db_saveUser s setDoc usr =
     (if useMock s then (Returns (), mockDb_saveUser s usr)
      else case setDoc of
             Returns _ \<Rightarrow> (Returns (), remote_wrote (SetUser (u_id usr) usr) s)
           | Throws \<Rightarrow> (Returns (), mockDb_saveUser (s\<lparr>useMock := True\<rparr>) usr))"

definition db_updateUserStatus ::
  "state \<Rightarrow> unit outcome \<Rightarrow> string \<Rightarrow> user_updates \<Rightarrow> unit outcome \<times> state" where
  "db_updateUserStatus s updateDoc userId updates =
     (if useMock s then (Returns (), mockDb_updateUserStatus s userId updates)
      else case updateDoc of
             Returns _ \<Rightarrow> (Returns (), remote_wrote (UpdateUser userId updates) s)
           | Throws \<Rightarrow>
               (Returns (), mockDb_updateUserStatus (s\<lparr>useMock := True\<rparr>) userId updates))"

definition db_sendMessage :: "state \<Rightarrow> unit outcome \<Rightarrow> message \<Rightarrow> unit outcome \<times> state" where
  "db_sendMessage s setDoc msg =
     (if useMock s then (Returns (), mockDb_sendMessage s msg)
      else case setDoc of
             Returns _ \<Rightarrow> (Returns (), remote_wrote (SetMessage (m_id msg) msg) s)
           | Throws \<Rightarrow> (Returns (), mockDb_sendMessage (s\<lparr>useMock := True\<rparr>) msg))"

text \<open>\<open>getDocs\<close> is the list of the references of the documents the query answers (unread
  messages of the sender to the user); \<open>commit\<close> is the batch that sets
  \<^verbatim>\<open>isRead: true\<close> on each.\<close>

definition db_markMessagesAsRead ::
  "state \<Rightarrow> string list outcome \<Rightarrow> unit outcome \<Rightarrow> string \<Rightarrow> string \<Rightarrow> unit outcome \<times> state"
  where
  "db_markMessagesAsRead s getDocs commit userId senderId =
     (if useMock s then (Returns (), mockDb_markMessagesAsRead s userId senderId)
      else case getDocs of
             Throws \<Rightarrow>
               (Returns (), mockDb_markMessagesAsRead (s\<lparr>useMock := True\<rparr>) userId senderId)
           | Returns refs \<Rightarrow>
               (case commit of
                  Returns _ \<Rightarrow> (Returns (), remote_wrote (BatchMarkRead refs) s)
                | Throws \<Rightarrow>
                    (Returns (),
                     mockDb_markMessagesAsRead (s\<lparr>useMock := True\<rparr>) userId senderId)))"

definition db_sendFriendRequest ::
  "state \<Rightarrow> unit outcome \<Rightarrow> friend_request \<Rightarrow> unit outcome \<times> state" where
  "db_sendFriendRequest s setDoc req =
     (if useMock s then (Returns (), mockDb_sendFriendRequest s req)
      else case setDoc of
             Returns _ \<Rightarrow> (Returns (), remote_wrote (SetRequest (r_id req) req) s)
           | Throws \<Rightarrow> (Returns (), mockDb_sendFriendRequest (s\<lparr>useMock := True\<rparr>) req))"

text \<open>The three remote calls, in the order the source makes them: \<open>getDoc\<close> of the
  request, \<open>updateDoc\<close> of its status, \<open>setDoc\<close> of the friendship. The
  \<^verbatim>\<open>catch\<close> block is \<open>handleFriendRequest_catch\<close>.\<close>

definition handleFriendRequest_catch ::
  "state \<Rightarrow> string \<Rightarrow> resolution \<Rightarrow> int \<Rightarrow> unit outcome \<times> state" where
  "handleFriendRequest_catch s requestId status now =
     (Returns (), mockDb_handleFriendRequest (s\<lparr>useMock := True\<rparr>) requestId status now)"

definition db_handleFriendRequest ::
  "state \<Rightarrow> friend_request option outcome \<Rightarrow> unit outcome \<Rightarrow> unit outcome \<Rightarrow>
   string \<Rightarrow> resolution \<Rightarrow> int \<Rightarrow> unit outcome \<times> state" where
  "db_handleFriendRequest s getDoc updateDoc setDoc requestId status now =
     (if useMock s then (Returns (), mockDb_handleFriendRequest s requestId status now)
      else case getDoc of
             Throws \<Rightarrow> handleFriendRequest_catch s requestId status now
           | Returns None \<Rightarrow> (Returns (), s)
           | Returns (Some req) \<Rightarrow>
               (case updateDoc of
                  Throws \<Rightarrow> handleFriendRequest_catch s requestId status now
                | Returns _ \<Rightarrow>
                    (let s1 = remote_wrote (UpdateRequestStatus requestId status) s
                     in if status = Accepted
                        then (let fid = sorted_pair_id (r_fromId req) (r_toId req)
                              in case setDoc of
                                   Throws \<Rightarrow> handleFriendRequest_catch s1 requestId status now
                                 | Returns _ \<Rightarrow>
                                     (Returns (),
                                      remote_wrote
                                        (SetFriendship fid
                                           \<lparr> f_id = fid, f_user1Id = r_fromId req,
                                             f_user2Id = r_toId req, f_createdAt = now \<rparr>) s1))
                        else (Returns (), s1))))"

section \<open>Subscriptions\<close>

text \<open>
  A callback of the caller is opaque: invoking it is recorded in \<open>delivered\<close>. The
  continuation of \<^verbatim>\<open>this.getUser(userId).then(u => u && callback(u))\<close> is taken at the
  point where the promise is created; in the browser it runs after the current call has
  returned, so for a user subscription it can follow a call of the unsubscribe function
  made in the same turn. No statement below rests on the order of those two.
\<close>

definition invoke :: "nat \<Rightarrow> payload \<Rightarrow> state \<Rightarrow> state" where
  "invoke cb p s = s\<lparr>delivered := delivered s @ [(cb, p)]\<rparr>"

text \<open>The \<^verbatim>\<open>refresh\<close> closures of \<^verbatim>\<open>mockDb.subscribeToFriends\<close>,
  \<^verbatim>\<open>subscribeToMessages\<close> and \<^verbatim>\<open>subscribeToIncomingRequests\<close> read these.\<close>

definition friends_of :: "state \<Rightarrow> string \<Rightarrow> user list" where
  "friends_of s userId =
     (let friendIds =
            map (\<lambda>f. if f_user1Id f = userId then f_user2Id f else f_user1Id f)
              (filter (\<lambda>f. f_user1Id f = userId \<or> f_user2Id f = userId) (friendships s))
      in filter (\<lambda>u. u_id u \<in> set friendIds) (users s))"

definition in_conversation :: "string \<Rightarrow> string \<Rightarrow> message \<Rightarrow> bool" where
  "in_conversation userId friendId m \<longleftrightarrow>
     (m_senderId m = userId \<and> m_receiverId m = friendId) \<or>
     (m_senderId m = friendId \<and> m_receiverId m = userId)"

definition by_timestamp :: "message \<Rightarrow> message \<Rightarrow> int" where
  "by_timestamp a b = m_timestamp a - m_timestamp b"

definition conversation :: "state \<Rightarrow> string \<Rightarrow> string \<Rightarrow> message list" where
  "conversation s userId friendId =
     sort_cmp by_timestamp (filter (in_conversation userId friendId) (messages s))"

definition incoming :: "state \<Rightarrow> string \<Rightarrow> friend_request list" where
  "incoming s userId = filter (\<lambda>r. r_toId r = userId \<and> r_status r = Pending) (requests s)"

text \<open>What a local subscription hands to its callback; \<open>None\<close> when
  \<^verbatim>\<open>u && callback(u)\<close> finds no user.\<close>

fun local_payload :: "state \<Rightarrow> sub_spec \<Rightarrow> payload option" where
  "local_payload s (SubUser userId) = map_option PUser (mockDb_getUser s userId)"
| "local_payload s (SubFriends userId) = Some (PFriends (friends_of s userId))"
| "local_payload s (SubMessages userId friendId) =
     Some (PMessages (conversation s userId friendId))"
| "local_payload s (SubRequests userId) = Some (PRequests (incoming s userId))"

definition local_refresh :: "sub_spec \<Rightarrow> nat \<Rightarrow> state \<Rightarrow> state" where
  "local_refresh spec cb s = (case local_payload s spec of None \<Rightarrow> s | Some p \<Rightarrow> invoke cb p s)"

text \<open>The test each \<^verbatim>\<open>handler\<close> makes on the message it receives.\<close>

fun triggers :: "sub_spec \<Rightarrow> event \<Rightarrow> bool" where
  "triggers (SubUser uid) (UserUpdate userId updates) = (userId = uid)"
| "triggers (SubUser uid) (Sync key) = (key = Users)"
| "triggers (SubFriends uid) (Sync key) = (key = Friendships \<or> key = Users)"
| "triggers (SubMessages uid fid) (NewMsg msg) = True"
| "triggers (SubMessages uid fid) (Sync key) = (key = Messages)"
| "triggers (SubRequests uid) (Sync key) = (key = Requests)"
| "triggers spec e = False"

definition handler :: "event \<Rightarrow> listener \<Rightarrow> state \<Rightarrow> state" where
  "handler e l s =
     (case l of (h, spec, cb) \<Rightarrow> if triggers spec e then local_refresh spec cb s else s)"

text \<open>The channel hands a message to every handler registered at that moment.\<close>

definition deliver :: "event \<Rightarrow> state \<Rightarrow> state" where
  "deliver e s = fold (handler e) (listeners s) s"

datatype handle = LocalHandle nat | RemoteHandle nat

text \<open>\<^verbatim>\<open>mockDb.subscribeToUser\<close>, \<^verbatim>\<open>subscribeToFriends\<close>,
  \<^verbatim>\<open>subscribeToMessages\<close> and \<^verbatim>\<open>subscribeToIncomingRequests\<close> have one shape:
  \<^verbatim>\<open>addEventListener\<close>, the first notification, and the closure that removes the
  handler as result.\<close>

definition mockDb_subscribe :: "state \<Rightarrow> sub_spec \<Rightarrow> nat \<Rightarrow> handle \<times> state" where
  "mockDb_subscribe s spec cb =
     (let h = next_handle s;
          s1 = s\<lparr>listeners := listeners s @ [(h, spec, cb)], next_handle := Suc h\<rparr>
      in (LocalHandle h, local_refresh spec cb s1))"

definition mockDb_subscribeToUser :: "state \<Rightarrow> string \<Rightarrow> nat \<Rightarrow> handle \<times> state" where
  "mockDb_subscribeToUser s userId cb = mockDb_subscribe s (SubUser userId) cb"

definition mockDb_subscribeToFriends :: "state \<Rightarrow> string \<Rightarrow> nat \<Rightarrow> handle \<times> state" where
  "mockDb_subscribeToFriends s userId cb = mockDb_subscribe s (SubFriends userId) cb"

definition mockDb_subscribeToMessages ::
  "state \<Rightarrow> string \<Rightarrow> string \<Rightarrow> nat \<Rightarrow> handle \<times> state" where
  "mockDb_subscribeToMessages s userId friendId cb =
     mockDb_subscribe s (SubMessages userId friendId) cb"

definition mockDb_subscribeToIncomingRequests ::
  "state \<Rightarrow> string \<Rightarrow> nat \<Rightarrow> handle \<times> state" where
  "mockDb_subscribeToIncomingRequests s userId cb = mockDb_subscribe s (SubRequests userId) cb"

text \<open>
  The subscriptions of \<^verbatim>\<open>db\<close>. \<open>onSnapshot\<close> says whether building the query and
  registering with the remote store throws; the \<^verbatim>\<open>catch\<close> of these four functions
  subscribes locally and does not assign \<^verbatim>\<open>useMock\<close>. The result in remote mode is
  the function \<^verbatim>\<open>onSnapshot\<close> returns, which ends the remote registration.
\<close>

definition db_subscribe :: "state \<Rightarrow> unit outcome \<Rightarrow> sub_spec \<Rightarrow> nat \<Rightarrow> handle \<times> state" where
  "db_subscribe s onSnapshot spec cb =
     (if useMock s then mockDb_subscribe s spec cb
      else case onSnapshot of
             Returns _ \<Rightarrow>
               (let h = next_handle s
                in (RemoteHandle h,
                    s\<lparr>remote_listeners := remote_listeners s @ [(h, spec, cb)],
                      next_handle := Suc h\<rparr>))
           | Throws \<Rightarrow> mockDb_subscribe s spec cb)"

definition db_subscribeToUser ::
  "state \<Rightarrow> unit outcome \<Rightarrow> string \<Rightarrow> nat \<Rightarrow> handle \<times> state" where
  "db_subscribeToUser s onSnapshot userId cb = db_subscribe s onSnapshot (SubUser userId) cb"

definition db_subscribeToFriends ::
  "state \<Rightarrow> unit outcome \<Rightarrow> string \<Rightarrow> nat \<Rightarrow> handle \<times> state" where
  "db_subscribeToFriends s onSnapshot userId cb =
     db_subscribe s onSnapshot (SubFriends userId) cb"

definition db_subscribeToMessages ::
  "state \<Rightarrow> unit outcome \<Rightarrow> string \<Rightarrow> string \<Rightarrow> nat \<Rightarrow> handle \<times> state" where
  "db_subscribeToMessages s onSnapshot userId friendId cb =
     db_subscribe s onSnapshot (SubMessages userId friendId) cb"

definition db_subscribeToIncomingRequests ::
  "state \<Rightarrow> unit outcome \<Rightarrow> string \<Rightarrow> nat \<Rightarrow> handle \<times> state" where
  "db_subscribeToIncomingRequests s onSnapshot userId cb =
     db_subscribe s onSnapshot (SubRequests userId) cb"

text \<open>Calling the function a subscription returned.\<close>

fun unsubscribe :: "handle \<Rightarrow> state \<Rightarrow> state" where
  "unsubscribe (LocalHandle h) s = s\<lparr>listeners := filter (\<lambda>l. fst l \<noteq> h) (listeners s)\<rparr>"
| "unsubscribe (RemoteHandle h) s =
     s\<lparr>remote_listeners := filter (\<lambda>l. fst l \<noteq> h) (remote_listeners s)\<rparr>"

text \<open>
  What the remote store hands to the success callback of a registration. For the friends
  subscription the callback itself reads: the two friendship queries (one outcome for
  the \<^verbatim>\<open>Promise.all\<close>) and the users query.
\<close>

datatype snapshot =
    UserSnap "user option"
  | FriendshipsSnap "(friendship list \<times> friendship list) outcome" "user list outcome"
  | MessagesSnap "message list"
  | RequestsSnap "friend_request list"

fun on_snapshot :: "sub_spec \<Rightarrow> nat \<Rightarrow> snapshot \<Rightarrow> state \<Rightarrow> state" where
  "on_snapshot (SubUser userId) cb (UserSnap d) s =
     (case d of None \<Rightarrow> s | Some u \<Rightarrow> invoke cb (PUser u) s)"
| "on_snapshot (SubFriends userId) cb (FriendshipsSnap q uq) s =
     (case q of
        Throws \<Rightarrow> s
      | Returns (s1, s2) \<Rightarrow>
          (let ids = map f_user2Id s1 @ map f_user1Id s2
           in if length ids = 0 then invoke cb (PFriends []) s
              else case uq of Throws \<Rightarrow> s | Returns us \<Rightarrow> invoke cb (PFriends us) s))"
| "on_snapshot (SubMessages userId friendId) cb (MessagesSnap docs) s =
     invoke cb (PMessages (filter (in_conversation userId friendId) docs)) s"
| "on_snapshot (SubRequests userId) cb (RequestsSnap docs) s = invoke cb (PRequests docs) s"
| "on_snapshot spec cb snap s = s"

text \<open>The error callback: \<^verbatim>\<open>useMock = true; mockDb.subscribeTo...(..., callback)\<close>; the
  value of the call is not used.\<close>

definition on_error :: "sub_spec \<Rightarrow> nat \<Rightarrow> state \<Rightarrow> state" where
  "on_error spec cb s = snd (mockDb_subscribe (s\<lparr>useMock := True\<rparr>) spec cb)"

definition remote_snapshot :: "nat \<Rightarrow> snapshot \<Rightarrow> state \<Rightarrow> state" where
  "remote_snapshot h snap s =
     (case find_first (\<lambda>l. fst l = h) (remote_listeners s) of
        None \<Rightarrow> s
      | Some (_, spec, cb) \<Rightarrow> on_snapshot spec cb snap s)"

text \<open>The transport of registration \<open>h\<close> fails: the remote store ends the registration
  and calls its error callback.\<close>

definition remote_error :: "nat \<Rightarrow> state \<Rightarrow> state" where
  "remote_error h s =
     (case find_first (\<lambda>l. fst l = h) (remote_listeners s) of
        None \<Rightarrow> s
      | Some (_, spec, cb) \<Rightarrow>
          on_error spec cb
            (s\<lparr>remote_listeners := filter (\<lambda>l. fst l \<noteq> h) (remote_listeners s)\<rparr>))"

section \<open>Runs of the process\<close>

text \<open>One step is a call of \<^verbatim>\<open>db\<close> with the answers of its remote calls, a call of
  an unsubscribe function, or something the environment does: the channel delivers a
  message, the remote store delivers a snapshot or an error.\<close>

datatype step =
    GetUser "user option outcome" string
  | GetUserByUsername "user list outcome" string
  | SaveUser "unit outcome" user
  | UpdateUserStatus "unit outcome" string user_updates
  | SendMessage "unit outcome" message
  | MarkMessagesAsRead "string list outcome" "unit outcome" string string
  | SendFriendRequest "unit outcome" friend_request
  | HandleFriendRequest "friend_request option outcome" "unit outcome" "unit outcome"
      string resolution int
  | Subscribe "unit outcome" sub_spec nat
  | Unsubscribe handle
  | Deliver event
  | RemoteSnapshot nat snapshot
  | RemoteError nat

fun exec :: "state \<Rightarrow> step \<Rightarrow> state" where
  "exec s (GetUser r ident) = snd (db_getUser s r ident)"
| "exec s (GetUserByUsername r name) = snd (db_getUserByUsername s r name)"
| "exec s (SaveUser r usr) = snd (db_saveUser s r usr)"
| "exec s (UpdateUserStatus r userId updates) = snd (db_updateUserStatus s r userId updates)"
| "exec s (SendMessage r msg) = snd (db_sendMessage s r msg)"
| "exec s (MarkMessagesAsRead q c userId senderId) =
     snd (db_markMessagesAsRead s q c userId senderId)"
| "exec s (SendFriendRequest r req) = snd (db_sendFriendRequest s r req)"
| "exec s (HandleFriendRequest g u w requestId status now) =
     snd (db_handleFriendRequest s g u w requestId status now)"
| "exec s (Subscribe r spec cb) = snd (db_subscribe s r spec cb)"
| "exec s (Unsubscribe h) = unsubscribe h s"
| "exec s (Deliver e) = deliver e s"
| "exec s (RemoteSnapshot h snap) = remote_snapshot h snap s"
| "exec s (RemoteError h) = remote_error h s"

definition run :: "state \<Rightarrow> step list \<Rightarrow> state" where
  "run s steps = foldl exec s steps"

section \<open>Registration and login (AuthScreen)\<close>

text \<open>
  \<^verbatim>\<open>btoa\<close> is a function of the browser and a parameter here.
\<close>

definition encryptPassword :: "(string \<Rightarrow> string) \<Rightarrow> string \<Rightarrow> string" where
  "encryptPassword btoa password = btoa (''NexusSalt_'' @ password)"

definition comparePassword :: "(string \<Rightarrow> string) \<Rightarrow> string \<Rightarrow> string \<Rightarrow> bool" where
  "comparePassword btoa password hash \<longleftrightarrow> btoa (''NexusSalt_'' @ password) = hash"

definition saveToVault :: "state \<Rightarrow> string \<Rightarrow> string \<Rightarrow> int \<Rightarrow> state" where
  "saveToVault s usr hash now =
     (let entry = \<lparr> v_username = usr, v_passwordHash = hash, v_lastLogin = now \<rparr>
      in case findIndex (\<lambda>v. v_username v = usr) (vault s) of
           Some existingIdx \<Rightarrow> s\<lparr>vault := (vault s)[existingIdx := entry]\<rparr>
         | None \<Rightarrow> s\<lparr>vault := vault s @ [entry]\<rparr>)"

text \<open>What the form shows: \<^verbatim>\<open>setError(message)\<close> or \<^verbatim>\<open>onLogin(user)\<close>.\<close>

datatype auth_outcome = AuthError string | LoggedIn user

text \<open>
  \<^verbatim>\<open>handleAuth\<close>. \<open>uuid\<close> is the value of \<^verbatim>\<open>crypto.randomUUID()\<close>, \<open>now\<close> of
  \<^verbatim>\<open>Date.now()\<close>; \<open>getDocs\<close> answers the remote call of
  \<^verbatim>\<open>db.getUserByUsername\<close> and \<open>write\<close> the remote call of \<^verbatim>\<open>db.saveUser\<close>
  (registration) or \<^verbatim>\<open>db.updateUserStatus\<close> (login).
\<close>

definition handleAuth ::
  "state \<Rightarrow> (string \<Rightarrow> string) \<Rightarrow> bool \<Rightarrow> bool \<Rightarrow> string \<Rightarrow> string \<Rightarrow> string \<Rightarrow> int \<Rightarrow>
   user list outcome \<Rightarrow> unit outcome \<Rightarrow> auth_outcome \<times> state" where
  "handleAuth s btoa isRegistering rememberMe username password uuid now getDocs write =
     (if username = [] \<or> password = [] then (AuthError ''Please fill in all fields.'', s)
      else if isRegistering then
        (case db_getUserByUsername s getDocs username of
           (Throws, s1) \<Rightarrow> (AuthError ''Connection to Nexus failed.'', s1)
         | (Returns (Some existing), s1) \<Rightarrow> (AuthError ''Username already taken.'', s1)
         | (Returns None, s1) \<Rightarrow>
             (let newUser =
                    \<lparr> u_id = uuid, u_username = username,
                      u_passwordHash = encryptPassword btoa password,
                      u_bio = ''Nexus user active.'',
                      u_avatar = Some (''https://picsum.photos/seed/'' @ username @ ''/200''),
                      u_status = Online, u_lastSeen = now, u_typingTo = None \<rparr>
              in case db_saveUser s1 write newUser of
                   (Throws, s2) \<Rightarrow> (AuthError ''Connection to Nexus failed.'', s2)
                 | (Returns _, s2) \<Rightarrow>
                     (LoggedIn newUser,
                      if rememberMe then saveToVault s2 username (u_passwordHash newUser) now
                      else s2)))
      else
        (case db_getUserByUsername s getDocs username of
           (Throws, s1) \<Rightarrow> (AuthError ''Connection to Nexus failed.'', s1)
         | (Returns found, s1) \<Rightarrow>
             (case found of
                Some usr \<Rightarrow>
                  (if comparePassword btoa password (u_passwordHash usr) then
                     (case db_updateUserStatus s1 write (u_id usr)
                             \<lparr> upd_id = None, upd_username = None, upd_passwordHash = None,
                               upd_bio = None, upd_avatar = None, upd_status = Some Online,
                               upd_lastSeen = Some now, upd_typingTo = None \<rparr> of
                        (Throws, s2) \<Rightarrow> (AuthError ''Connection to Nexus failed.'', s2)
                      | (Returns _, s2) \<Rightarrow>
                          (LoggedIn (usr\<lparr>u_status := Online, u_lastSeen := now\<rparr>),
                           if rememberMe then saveToVault s2 username (u_passwordHash usr) now
                           else s2))
                   else (AuthError ''Identity verification failed.'', s1))
              | None \<Rightarrow> (AuthError ''Identity verification failed.'', s1))))"

text \<open>
  The remote query of \<^verbatim>\<open>db.getUserByUsername\<close> is
  \<^verbatim>\<open>where('username', '==', username)\<close>: an equality filter on the stored field, with
  the string as the caller gave it.
\<close>

definition where_username_eq :: "user list \<Rightarrow> string \<Rightarrow> user list" where
  "where_username_eq docs name = filter (\<lambda>u. u_username u = name) docs"

section \<open>Notions used in the statements\<close>

text \<open>The state the local retry starts from: the mode flag set, nothing else touched.\<close>

definition demoted :: "state \<Rightarrow> state" where
  "demoted s = s\<lparr>useMock := True\<rparr>"

text \<open>How a list of stored messages may differ from an earlier one: it is at least as
  long, and a message of the earlier list is kept or has \<open>isRead\<close> turned from false
  to true.\<close>

definition evolves :: "message list \<Rightarrow> message list \<Rightarrow> bool" where
  "evolves old new \<longleftrightarrow>
     length old \<le> length new \<and>
     (\<forall>i < length old.
        new ! i = old ! i \<or> (\<not> m_isRead (old ! i) \<and> new ! i = (old ! i)\<lparr>m_isRead := True\<rparr>))"

text \<open>What one handler hands to its callback when the channel delivers \<open>e\<close> in state \<open>s\<close>.\<close>

definition notification :: "state \<Rightarrow> event \<Rightarrow> listener \<Rightarrow> (nat \<times> payload) list" where
  "notification s e l =
     (case l of (h, spec, cb) \<Rightarrow>
        if triggers spec e
        then (case local_payload s spec of None \<Rightarrow> [] | Some p \<Rightarrow> [(cb, p)])
        else [])"

text \<open>Handles are numbered from a counter, so no two registrations share one.\<close>

definition handles_ok :: "state \<Rightarrow> bool" where
  "handles_ok s \<longleftrightarrow>
     distinct (map fst (remote_listeners s)) \<and>
     list_all (\<lambda>l. fst l < next_handle s) (remote_listeners s)"

text \<open>
  Modelled from the spec: the remote document store is a service outside the repository,
  and section 4.2 of the spec describes its writes: \<open>put\<close> is an upsert that replaces
  the whole document, \<open>updatePartial\<close> merges the named fields into the document.
  \<open>remote_messages docs0 s\<close> is the messages collection after the writes this process
  has issued, \<open>docs0\<close> being what it held before: \<^verbatim>\<open>setDoc(doc(firestore, 'messages',
  msg.id), msg)\<close> stores the message under its id, and the batch of
  \<^verbatim>\<open>markMessagesAsRead\<close> sets \<open>isRead\<close> to true on each document it names.
\<close>

fun apply_write :: "(string \<rightharpoonup> message) \<Rightarrow> remote_write \<Rightarrow> (string \<rightharpoonup> message)" where
  "apply_write docs (SetMessage i m) = docs(i \<mapsto> m)"
| "apply_write docs (BatchMarkRead refs) =
     (\<lambda>i. if i \<in> set refs then map_option (\<lambda>m. m\<lparr>m_isRead := True\<rparr>) (docs i) else docs i)"
| "apply_write docs w = docs"

definition remote_messages :: "(string \<rightharpoonup> message) \<Rightarrow> state \<Rightarrow> (string \<rightharpoonup> message)" where
  "remote_messages docs0 s = foldl apply_write docs0 (remote_log s)"

section \<open>Example data\<close>

definition alice :: user where
  "alice = \<lparr> u_id = ''u1'', u_username = ''Alice'', u_passwordHash = ''h'', u_bio = ''bio'',
             u_avatar = None, u_status = Offline, u_lastSeen = 0, u_typingTo = None \<rparr>"

definition req_ab :: friend_request where
  "req_ab = \<lparr> r_id = ''r1'', r_fromId = ''a'', r_toId = ''b'', r_status = Pending,
              r_timestamp = 1 \<rparr>"

definition msg_at :: "string \<Rightarrow> string \<Rightarrow> string \<Rightarrow> int \<Rightarrow> bool \<Rightarrow> message" where
  "msg_at i sender receiver t rd =
     \<lparr> m_id = i, m_senderId = sender, m_receiverId = receiver, m_content = ''hi'',
       m_timestamp = t, m_isRead = rd \<rparr>"

text \<open>A process that starts without credentials (LOCAL) and one that starts with them
  (REMOTE).\<close>

definition local0 :: state where
  "local0 = module_init None False"

definition remote0 :: state where
  "remote0 = module_init (Some ''AIzaKey'') False"

definition no_updates :: user_updates where
  "no_updates = \<lparr> upd_id = None, upd_username = None, upd_passwordHash = None, upd_bio = None,
                  upd_avatar = None, upd_status = None, upd_lastSeen = None,
                  upd_typingTo = None \<rparr>"

definition alice_saved :: state where
  "alice_saved = mockDb_saveUser local0 alice"

text \<open>The request a to b, sent and accepted once.\<close>

definition accepted_once :: state where
  "accepted_once =
     mockDb_handleFriendRequest (mockDb_sendFriendRequest local0 req_ab) ''r1'' Accepted 10"

text \<open>The requests a to b and b to a, both pending, and the steps that accept both.\<close>

definition req_ba :: friend_request where
  "req_ba = \<lparr> r_id = ''r2'', r_fromId = ''b'', r_toId = ''a'', r_status = Pending,
              r_timestamp = 2 \<rparr>"

definition crossed_requests :: state where
  "crossed_requests = mockDb_sendFriendRequest (mockDb_sendFriendRequest local0 req_ab) req_ba"

definition accept_both :: "step list" where
  "accept_both =
     [HandleFriendRequest (Returns (Some req_ab)) (Returns ()) (Returns ()) ''r1'' Accepted 10,
      HandleFriendRequest (Returns (Some req_ba)) (Returns ()) (Returns ()) ''r2'' Accepted 20]"

text \<open>Three messages between a and b stored in the order 2, 1, 3 of their timestamps,
  with a message of another conversation between them.\<close>

definition out_of_order :: state where
  "out_of_order =
     mockDb_sendMessage
       (mockDb_sendMessage
          (mockDb_sendMessage
             (mockDb_sendMessage local0 (msg_at ''m2'' ''a'' ''b'' 2 False))
             (msg_at ''m1'' ''a'' ''b'' 1 False))
          (msg_at ''mx'' ''a'' ''c'' 0 False))
       (msg_at ''m3'' ''b'' ''a'' 3 False)"

text \<open>A snapshot of the remote query, ascending by timestamp.\<close>

definition snapshot_docs :: "message list" where
  "snapshot_docs = [msg_at ''mx'' ''a'' ''c'' 0 False, msg_at ''m1'' ''a'' ''b'' 1 False]"

text \<open>A message of a to b that b has read, and later calls.\<close>

definition read_once :: state where
  "read_once =
     mockDb_markMessagesAsRead
       (mockDb_sendMessage local0 (msg_at ''m1'' ''a'' ''b'' 1 False)) ''b'' ''a''"

definition later_steps :: "step list" where
  "later_steps =
     [SendMessage Throws (msg_at ''m1'' ''a'' ''b'' 5 False),
      MarkMessagesAsRead Throws Throws ''a'' ''b'',
      SaveUser (Returns ()) alice]"

definition msg_ab :: message where
  "msg_ab = msg_at ''m1'' ''a'' ''b'' 1 False"

text \<open>A conversation subscription opened in REMOTE mode; its handle is
  \<open>RemoteHandle 0\<close>.\<close>

definition sub_open :: state where
  "sub_open = snd (db_subscribeToMessages remote0 (Returns ()) ''a'' ''b'' 7)"

text \<open>A user subscription opened in REMOTE mode for a user the local store does not
  hold.\<close>

definition sub_user_open :: state where
  "sub_user_open = snd (db_subscribeToUser remote0 (Returns ()) ''u9'' 8)"

definition after_failover :: "step list" where
  "after_failover = [SendMessage (Returns ()) msg_ab]"

text \<open>A subscription whose transport fails and that the caller then cancels, and the same
  subscription opened and cancelled in LOCAL mode.\<close>

definition leak_steps :: "step list" where
  "leak_steps =
     [Subscribe (Returns ()) (SubMessages ''a'' ''b'') 7,
      RemoteError 0,
      Unsubscribe (RemoteHandle 0)]"

definition local_steps :: "step list" where
  "local_steps =
     [Subscribe (Returns ()) (SubMessages ''a'' ''b'') 7,
      Unsubscribe (LocalHandle 0)]"

text \<open>An encoding to stand for \<^verbatim>\<open>btoa\<close>, and the user that registering \<open>alice\<close> with
  it creates.\<close>

definition plain :: "string \<Rightarrow> string" where
  "plain x = x"

definition alice_lower :: user where
  "alice_lower =
     \<lparr> u_id = ''u2'', u_username = ''alice'', u_passwordHash = ''NexusSalt_pw'',
       u_bio = ''Nexus user active.'',
       u_avatar = Some ''https://picsum.photos/seed/alice/200'',
       u_status = Online, u_lastSeen = 5, u_typingTo = None \<rparr>"

text \<open>The accepted request, rejected afterwards.\<close>

definition rejected_after :: state where
  "rejected_after = mockDb_handleFriendRequest accepted_once ''r1'' Rejected 20"

text \<open>In REMOTE mode: a message is sent and read; then a message with the same id is
  sent again, or other messages are sent and read.\<close>

definition read_remotely :: "step list" where
  "read_remotely =
     [SendMessage (Returns ()) (msg_at ''m1'' ''a'' ''b'' 1 False),
      MarkMessagesAsRead (Returns [''m1'']) (Returns ()) ''b'' ''a'']"

definition resend_same_id :: step where
  "resend_same_id = SendMessage (Returns ()) (msg_at ''m1'' ''a'' ''b'' 5 False)"

definition other_sends :: "step list" where
  "other_sends =
     [SendMessage (Returns ()) (msg_at ''m2'' ''a'' ''b'' 5 False),
      MarkMessagesAsRead (Returns [''m2'']) (Returns ()) ''b'' ''a'',
      SaveUser (Returns ()) alice]"

definition m1_read :: message where
  "m1_read = msg_at ''m1'' ''a'' ''b'' 1 True"

text \<open>A user subscription in REMOTE mode for the user \<open>u1\<close>, whom only the remote store
  holds, and what follows the failure of its transport: a heartbeat of the user and two
  messages of the channel.\<close>

definition user_sub_before :: "step list" where
  "user_sub_before =
     [Subscribe (Returns ()) (SubUser ''u1'') 8,
      RemoteSnapshot 0 (UserSnap (Some alice))]"

definition user_sub_after :: "step list" where
  "user_sub_after =
     [UpdateUserStatus Throws ''u1'' no_updates,
      Deliver (UserUpdate ''u1'' no_updates),
      Deliver (Sync Users)]"

section \<open>Facts about the library functions\<close>

lemma findIndex_None_iff: "findIndex P xs = None \<longleftrightarrow> (\<forall>x \<in> set xs. \<not> P x)"
  by (induction xs) (auto split: option.splits)

lemma findIndex_Some_bound: "findIndex P xs = Some i \<Longrightarrow> i < length xs \<and> P (xs ! i)"
  by (induction xs arbitrary: i) (auto split: if_splits option.splits)

text \<open>The key of a Friendship does not depend on who sent the request.\<close>

lemma str_lt_asym: "str_lt a b \<Longrightarrow> \<not> str_lt b a"
  by (induction a b rule: str_lt.induct) (auto split: if_splits)

lemma str_lt_total: "\<not> str_lt a b \<Longrightarrow> \<not> str_lt b a \<Longrightarrow> a = b"
proof (induction a b rule: str_lt.induct)
  case (4 x xs y ys)
  from "4.prems" have eq: "(of_char x :: nat) = of_char y"
    by (auto split: if_splits)
  then have "x = y" by simp
  moreover from "4.prems" eq have "\<not> str_lt xs ys" and "\<not> str_lt ys xs"
    by simp_all
  then have "xs = ys" using "4.IH" eq by simp
  ultimately show ?case by simp
qed simp_all

lemma sorted_pair_id_sym: "sorted_pair_id a b = sorted_pair_id b a"
proof (cases "str_lt b a")
  case True
  then have "\<not> str_lt a b" by (rule str_lt_asym)
  with True show ?thesis by (simp add: sorted_pair_id_def)
next
  case False
  show ?thesis
  proof (cases "str_lt a b")
    case True
    with False show ?thesis by (simp add: sorted_pair_id_def)
  next
    case ab: False
    with False have "a = b" by (intro str_lt_total)
    then show ?thesis by simp
  qed
qed

section \<open>What the operations of mockDb leave alone\<close>

lemma mock_ops_useMock [simp]:
  "useMock (mockDb_saveUser s usr) = useMock s"
  "useMock (mockDb_updateUserStatus s userId updates) = useMock s"
  "useMock (mockDb_sendMessage s msg) = useMock s"
  "useMock (mockDb_markMessagesAsRead s userId senderId) = useMock s"
  "useMock (mockDb_sendFriendRequest s req) = useMock s"
  "useMock (mockDb_handleFriendRequest s requestId status now) = useMock s"
  by (simp_all add: mockDb_saveUser_def mockDb_updateUserStatus_def mockDb_sendMessage_def
        mockDb_markMessagesAsRead_def mockDb_sendFriendRequest_def
        mockDb_handleFriendRequest_def set_users_def set_messages_def set_requests_def
        set_friendships_def postMessage_def Let_def split: option.splits)

lemma mock_ops_remote_log [simp]:
  "remote_log (mockDb_saveUser s usr) = remote_log s"
  "remote_log (mockDb_updateUserStatus s userId updates) = remote_log s"
  "remote_log (mockDb_sendMessage s msg) = remote_log s"
  "remote_log (mockDb_markMessagesAsRead s userId senderId) = remote_log s"
  "remote_log (mockDb_sendFriendRequest s req) = remote_log s"
  "remote_log (mockDb_handleFriendRequest s requestId status now) = remote_log s"
  by (simp_all add: mockDb_saveUser_def mockDb_updateUserStatus_def mockDb_sendMessage_def
        mockDb_markMessagesAsRead_def mockDb_sendFriendRequest_def
        mockDb_handleFriendRequest_def set_users_def set_messages_def set_requests_def
        set_friendships_def postMessage_def Let_def split: option.splits)

lemma mock_ops_messages [simp]:
  "messages (mockDb_saveUser s usr) = messages s"
  "messages (mockDb_updateUserStatus s userId updates) = messages s"
  "messages (mockDb_sendMessage s msg) = messages s @ [msg]"
  "messages (mockDb_sendFriendRequest s req) = messages s"
  "messages (mockDb_handleFriendRequest s requestId status now) = messages s"
  by (simp_all add: mockDb_saveUser_def mockDb_updateUserStatus_def mockDb_sendMessage_def
        mockDb_sendFriendRequest_def mockDb_handleFriendRequest_def set_users_def
        set_messages_def set_requests_def set_friendships_def postMessage_def Let_def
        split: option.splits)

lemma mock_ops_listeners [simp]:
  "listeners (mockDb_saveUser s usr) = listeners s"
  "listeners (mockDb_updateUserStatus s userId updates) = listeners s"
  "listeners (mockDb_sendMessage s msg) = listeners s"
  "listeners (mockDb_markMessagesAsRead s userId senderId) = listeners s"
  "listeners (mockDb_sendFriendRequest s req) = listeners s"
  "listeners (mockDb_handleFriendRequest s requestId status now) = listeners s"
  by (simp_all add: mockDb_saveUser_def mockDb_updateUserStatus_def mockDb_sendMessage_def
        mockDb_markMessagesAsRead_def mockDb_sendFriendRequest_def
        mockDb_handleFriendRequest_def set_users_def set_messages_def set_requests_def
        set_friendships_def postMessage_def Let_def split: option.splits)

lemma mock_ops_handles [simp]:
  "remote_listeners (mockDb_saveUser s usr) = remote_listeners s"
  "remote_listeners (mockDb_updateUserStatus s userId updates) = remote_listeners s"
  "remote_listeners (mockDb_sendMessage s msg) = remote_listeners s"
  "remote_listeners (mockDb_markMessagesAsRead s userId senderId) = remote_listeners s"
  "remote_listeners (mockDb_sendFriendRequest s req) = remote_listeners s"
  "remote_listeners (mockDb_handleFriendRequest s requestId status now) = remote_listeners s"
  "next_handle (mockDb_saveUser s usr) = next_handle s"
  "next_handle (mockDb_updateUserStatus s userId updates) = next_handle s"
  "next_handle (mockDb_sendMessage s msg) = next_handle s"
  "next_handle (mockDb_markMessagesAsRead s userId senderId) = next_handle s"
  "next_handle (mockDb_sendFriendRequest s req) = next_handle s"
  "next_handle (mockDb_handleFriendRequest s requestId status now) = next_handle s"
  by (simp_all add: mockDb_saveUser_def mockDb_updateUserStatus_def mockDb_sendMessage_def
        mockDb_markMessagesAsRead_def mockDb_sendFriendRequest_def
        mockDb_handleFriendRequest_def set_users_def set_messages_def set_requests_def
        set_friendships_def postMessage_def Let_def split: option.splits)

lemma local_payload_None:
  "local_payload t spec = None \<longleftrightarrow> (\<exists>uid. spec = SubUser uid \<and> mockDb_getUser t uid = None)"
  by (cases spec) simp_all


section \<open>Claims about the Local Simulated Store\<close>

text \<open>
  C10. For every user id that no record of the users collection has, and every updates
  object, \<^verbatim>\<open>mockDb.updateUserStatus\<close> changes nothing: the whole process state is
  returned as it was, so the users collection is the same list, no record is created and
  no message is posted on the channel. The operation has no failing branch.
\<close>

theorem updateUserStatus_absent_noop:
  assumes "\<forall>u \<in> set (users s). u_id u \<noteq> userId"
  shows "mockDb_updateUserStatus s userId updates = s"
proof -
  have "findIndex (\<lambda>u. u_id u = userId) (users s) = None"
    using assms by (simp add: findIndex_None_iff)
  then show ?thesis by (simp add: mockDb_updateUserStatus_def)
qed


theorem updateUserStatus_absent_noop_witness:
  "map u_id (users alice_saved) = [''u1''] \<and>
   mockDb_updateUserStatus alice_saved ''u2'' no_updates = alice_saved"
proof -
  have ids: "map u_id (users alice_saved) = [''u1'']"
    by code_simp
  have h: "\<forall>u \<in> set (users alice_saved). u_id u \<noteq> ''u2''"
    by code_simp
  show ?thesis
    using ids updateUserStatus_absent_noop [OF h, of no_updates] by simp
qed

text \<open>
  C1. At most one Friendship record per pair of users: accepting a request for a pair
  that already has a Friendship adds no second record. On the Local Simulated Store
  this fails: \<^verbatim>\<open>mockDb.handleFriendRequest\<close> computes the deterministic id and then
  pushes the record without looking for it. Accepting the request \<open>r1\<close> of a to b a
  second time leaves two records with the id \<open>a_b\<close>, and so does accepting the request
  of a to b and the request of b to a. In REMOTE mode the same two acceptances write both
  records under the one document key \<open>a_b\<close>.
\<close>

theorem accept_twice_duplicates_friendship:
  "map f_id (friendships accepted_once) = [''a_b''] \<and>
   map f_id (friendships (mockDb_handleFriendRequest accepted_once ''r1'' Accepted 20)) =
     [''a_b'', ''a_b''] \<and>
   map f_id (friendships (run crossed_requests accept_both)) = [''a_b'', ''a_b''] \<and>
   map (\<lambda>f. (f_user1Id f, f_user2Id f)) (friendships (run crossed_requests accept_both)) =
     [(''a'', ''b''), (''b'', ''a'')] \<and>
   remote_log (run remote0 accept_both) =
     [UpdateRequestStatus ''r1'' Accepted,
      SetFriendship ''a_b''
        \<lparr> f_id = ''a_b'', f_user1Id = ''a'', f_user2Id = ''b'', f_createdAt = 10 \<rparr>,
      UpdateRequestStatus ''r2'' Accepted,
      SetFriendship ''a_b''
        \<lparr> f_id = ''a_b'', f_user1Id = ''b'', f_user2Id = ''a'', f_createdAt = 20 \<rparr>]"
  by code_simp

lemma db_handleFriendRequest_returns:
  "fst (db_handleFriendRequest s g u w requestId status now) = Returns ()"
  by (simp add: db_handleFriendRequest_def handleFriendRequest_catch_def Let_def
        split: outcome.splits option.splits)

lemma handleFriendRequest_posted:
  "findIndex (\<lambda>r. r_id r = requestId) (requests s) = Some idx \<Longrightarrow>
   posted (mockDb_handleFriendRequest s requestId status now) =
     posted s @ (if status = Accepted then [Sync Requests, Sync Friendships] else [Sync Requests])"
  by (simp add: mockDb_handleFriendRequest_def set_requests_def set_friendships_def Let_def)

lemma handleFriendRequest_identity_iff:
  "mockDb_handleFriendRequest s requestId status now = s \<longleftrightarrow>
   findIndex (\<lambda>r. r_id r = requestId) (requests s) = None"
proof (cases "findIndex (\<lambda>r. r_id r = requestId) (requests s)")
  case None
  then show ?thesis by (simp add: mockDb_handleFriendRequest_def)
next
  case (Some idx)
  then have "length (posted (mockDb_handleFriendRequest s requestId status now)) \<noteq>
             length (posted s)"
    by (simp add: handleFriendRequest_posted)
  then have "mockDb_handleFriendRequest s requestId status now \<noteq> s"
    by auto
  with Some show ?thesis by simp
qed

text \<open>
  C2, as stated: calling \<^verbatim>\<open>handleFriendRequest\<close> on a request that is already accepted
  or rejected changes nothing. It fails: the accepted request \<open>r1\<close> becomes rejected.
\<close>

theorem reresolve_counterexample:
  "map r_status (requests accepted_once) = [Resolved Accepted] \<and>
   map r_status (requests (mockDb_handleFriendRequest accepted_once ''r1'' Rejected 20)) =
     [Resolved Rejected] \<and>
   mockDb_handleFriendRequest accepted_once ''r1'' Rejected 20 \<noteq> accepted_once"
proof -
  have a: "map r_status (requests accepted_once) = [Resolved Accepted]"
    by code_simp
  have b: "map r_status (requests (mockDb_handleFriendRequest accepted_once ''r1'' Rejected 20)) =
     [Resolved Rejected]"
    by code_simp
  from a b have "mockDb_handleFriendRequest accepted_once ''r1'' Rejected 20 \<noteq> accepted_once"
    by auto
  with a b show ?thesis by simp
qed

text \<open>
  C2, amended. \<^verbatim>\<open>handleFriendRequest\<close> returns normally whatever the remote store
  answers, and does not look at the current status. When a request has the id, the first
  such request gets the status given, whatever its status was; the list of requests is
  the same exactly when the request had that status already; every other request, the
  users and the messages stay as they were; for \<open>rejected\<close> the friendships stay too and
  one \<open>sync\<close> of the requests is posted. The whole state (collections and channel) is
  unchanged exactly when no request has the id. In REMOTE mode the status is written to
  the request document that exists, whatever status the document has.
\<close>

theorem handleFriendRequest_overwrites_status:
  "fst (db_handleFriendRequest s g u w requestId status now) = Returns () \<and>
   (findIndex (\<lambda>r. r_id r = requestId) (requests s) = Some idx \<longrightarrow>
      requests (mockDb_handleFriendRequest s requestId status now) =
        (requests s)[idx := (requests s ! idx)\<lparr>r_status := Resolved status\<rparr>] \<and>
      (requests (mockDb_handleFriendRequest s requestId status now) = requests s) =
        (r_status (requests s ! idx) = Resolved status) \<and>
      users (mockDb_handleFriendRequest s requestId status now) = users s \<and>
      messages (mockDb_handleFriendRequest s requestId status now) = messages s \<and>
      (status = Rejected \<longrightarrow>
         friendships (mockDb_handleFriendRequest s requestId status now) = friendships s \<and>
         posted (mockDb_handleFriendRequest s requestId status now) =
           posted s @ [Sync Requests])) \<and>
   (mockDb_handleFriendRequest s requestId status now = s) =
     (findIndex (\<lambda>r. r_id r = requestId) (requests s) = None) \<and>
   (\<not> useMock s \<longrightarrow>
      UpdateRequestStatus requestId status \<in>
        set (remote_log (snd (db_handleFriendRequest s (Returns (Some req)) (Returns ()) w
                                requestId status now))))"
proof -
  have remote: "\<not> useMock s \<longrightarrow>
      UpdateRequestStatus requestId status \<in>
        set (remote_log (snd (db_handleFriendRequest s (Returns (Some req)) (Returns ()) w
                                requestId status now)))"
    by (cases w)
       (simp_all add: db_handleFriendRequest_def handleFriendRequest_catch_def remote_wrote_def
          Let_def)
  have found: "requests (mockDb_handleFriendRequest s requestId status now) =
        (requests s)[idx := (requests s ! idx)\<lparr>r_status := Resolved status\<rparr>] \<and>
      (requests (mockDb_handleFriendRequest s requestId status now) = requests s) =
        (r_status (requests s ! idx) = Resolved status) \<and>
      users (mockDb_handleFriendRequest s requestId status now) = users s \<and>
      messages (mockDb_handleFriendRequest s requestId status now) = messages s \<and>
      (status = Rejected \<longrightarrow>
         friendships (mockDb_handleFriendRequest s requestId status now) = friendships s \<and>
         posted (mockDb_handleFriendRequest s requestId status now) =
           posted s @ [Sync Requests])"
    if f: "findIndex (\<lambda>r. r_id r = requestId) (requests s) = Some idx"
  proof -
    from f have len: "idx < length (requests s)"
      by (simp add: findIndex_Some_bound)
    have upd: "requests (mockDb_handleFriendRequest s requestId status now) =
        (requests s)[idx := (requests s ! idx)\<lparr>r_status := Resolved status\<rparr>]"
      using f by (simp add: mockDb_handleFriendRequest_def set_requests_def set_friendships_def
            Let_def)
    have "((requests s ! idx)\<lparr>r_status := Resolved status\<rparr> = requests s ! idx) =
          (r_status (requests s ! idx) = Resolved status)"
      by (cases "requests s ! idx") auto
    moreover from len have
      "((requests s)[idx := (requests s ! idx)\<lparr>r_status := Resolved status\<rparr>] = requests s) =
       ((requests s ! idx)\<lparr>r_status := Resolved status\<rparr> = requests s ! idx)"
      by (metis list_update_same_conv)
    ultimately have same: "(requests (mockDb_handleFriendRequest s requestId status now) =
          requests s) = (r_status (requests s ! idx) = Resolved status)"
      by (simp only: upd)
    have rest: "status = Rejected \<longrightarrow>
         friendships (mockDb_handleFriendRequest s requestId status now) = friendships s \<and>
         posted (mockDb_handleFriendRequest s requestId status now) =
           posted s @ [Sync Requests]"
      using f by (simp add: mockDb_handleFriendRequest_def set_requests_def Let_def)
    have um: "users (mockDb_handleFriendRequest s requestId status now) = users s \<and>
      messages (mockDb_handleFriendRequest s requestId status now) = messages s"
      by (simp add: mockDb_handleFriendRequest_def set_requests_def set_friendships_def Let_def
            split: option.splits)
    from upd same um rest show ?thesis
      by blast
  qed
  from db_handleFriendRequest_returns handleFriendRequest_identity_iff remote found
  show ?thesis
    by blast
qed

theorem handleFriendRequest_overwrites_status_witness:
  "fst (db_handleFriendRequest accepted_once Throws Throws Throws ''r1'' Rejected 20) = Returns () \<and>
   map r_status (requests accepted_once) = [Resolved Accepted] \<and>
   requests (mockDb_handleFriendRequest accepted_once ''r1'' Rejected 20) \<noteq> requests accepted_once \<and>
   friendships (mockDb_handleFriendRequest accepted_once ''r1'' Rejected 20) =
     friendships accepted_once \<and>
   map r_status (requests rejected_after) = [Resolved Rejected] \<and>
   requests (mockDb_handleFriendRequest rejected_after ''r1'' Rejected 30) = requests rejected_after \<and>
   posted (mockDb_handleFriendRequest rejected_after ''r1'' Rejected 30) =
     posted rejected_after @ [Sync Requests] \<and>
   mockDb_handleFriendRequest rejected_after ''r1'' Rejected 30 \<noteq> rejected_after \<and>
   mockDb_handleFriendRequest accepted_once ''r9'' Rejected 20 = accepted_once \<and>
   UpdateRequestStatus ''r1'' Rejected \<in>
     set (remote_log (snd (db_handleFriendRequest remote0
            (Returns (Some (req_ab\<lparr>r_status := Resolved Accepted\<rparr>))) (Returns ()) Throws
            ''r1'' Rejected 20)))"
proof -
  have h: "findIndex (\<lambda>r. r_id r = ''r1'') (requests accepted_once) = Some 0"
    by code_simp
  have h': "findIndex (\<lambda>r. r_id r = ''r1'') (requests rejected_after) = Some 0"
    by code_simp
  have n: "findIndex (\<lambda>r. r_id r = ''r9'') (requests accepted_once) = None"
    by code_simp
  have m: "\<not> useMock remote0"
    by code_simp
  have st: "map r_status (requests accepted_once) = [Resolved Accepted]"
    by code_simp
  have st': "map r_status (requests rejected_after) = [Resolved Rejected]"
    by code_simp
  from st have acc: "r_status (requests accepted_once ! 0) \<noteq> Resolved Rejected"
    by (auto simp: map_eq_Cons_conv)
  from st' have rej: "r_status (requests rejected_after ! 0) = Resolved Rejected"
    by (auto simp: map_eq_Cons_conv)
  note T1 = handleFriendRequest_overwrites_status
    [of accepted_once Throws Throws Throws "''r1''" Rejected 20 0]
  note A = T1 [THEN conjunct2, THEN conjunct1, THEN mp, OF h]
  note T2 = handleFriendRequest_overwrites_status
    [of rejected_after Throws Throws Throws "''r1''" Rejected 30 0]
  note B = T2 [THEN conjunct2, THEN conjunct1, THEN mp, OF h']
  note T3 = handleFriendRequest_overwrites_status
    [of accepted_once Throws Throws Throws "''r9''" Rejected 20 0]
  note T4 = handleFriendRequest_overwrites_status
    [of remote0 Throws Throws Throws "''r1''" Rejected 20 0
        "req_ab\<lparr>r_status := Resolved Accepted\<rparr>"]
  have c1: "fst (db_handleFriendRequest accepted_once Throws Throws Throws ''r1'' Rejected 20) =
      Returns ()"
    by (rule T1 [THEN conjunct1])
  have c2: "requests (mockDb_handleFriendRequest accepted_once ''r1'' Rejected 20) \<noteq>
      requests accepted_once"
    using A acc by blast
  have c3: "friendships (mockDb_handleFriendRequest accepted_once ''r1'' Rejected 20) =
     friendships accepted_once"
    using A by blast
  have c4: "requests (mockDb_handleFriendRequest rejected_after ''r1'' Rejected 30) =
      requests rejected_after"
    using B rej by blast
  have c5: "posted (mockDb_handleFriendRequest rejected_after ''r1'' Rejected 30) =
     posted rejected_after @ [Sync Requests]"
    using B by blast
  have c6: "mockDb_handleFriendRequest rejected_after ''r1'' Rejected 30 \<noteq> rejected_after"
    using T2 [THEN conjunct2, THEN conjunct2, THEN conjunct1] h' by simp
  have c7: "mockDb_handleFriendRequest accepted_once ''r9'' Rejected 20 = accepted_once"
    using T3 [THEN conjunct2, THEN conjunct2, THEN conjunct1] n by simp
  have c8: "UpdateRequestStatus ''r1'' Rejected \<in>
     set (remote_log (snd (db_handleFriendRequest remote0
            (Returns (Some (req_ab\<lparr>r_status := Resolved Accepted\<rparr>))) (Returns ()) Throws
            ''r1'' Rejected 20)))"
    by (rule T4 [THEN conjunct2, THEN conjunct2, THEN conjunct2, THEN mp, OF m])
  from c1 st c2 c3 st' c4 c5 c6 c7 c8 show ?thesis
    by (intro conjI)
qed


section \<open>The conversation subscription\<close>

lemma mset_insert_cmp: "mset (insert_cmp cmp x xs) = add_mset x (mset xs)"
  by (induction xs) simp_all

lemma mset_sort_cmp: "mset (sort_cmp cmp xs) = mset xs"
  by (induction xs) (simp_all add: mset_insert_cmp)

lemma set_insert_cmp: "set (insert_cmp cmp x xs) = insert x (set xs)"
  using mset_insert_cmp [of cmp x xs] by (metis set_mset_add_mset_insert set_mset_mset)

lemma sorted_insert_by_timestamp:
  "sorted (map m_timestamp xs) \<Longrightarrow> sorted (map m_timestamp (insert_cmp by_timestamp x xs))"
proof (induction xs)
  case Nil
  show ?case by simp
next
  case (Cons y ys)
  show ?case
  proof (cases "by_timestamp x y > 0")
    case True
    then have "m_timestamp y \<le> m_timestamp x"
      by (simp add: by_timestamp_def)
    with Cons True show ?thesis
      by (auto simp: set_insert_cmp)
  next
    case False
    then have "m_timestamp x \<le> m_timestamp y"
      by (simp add: by_timestamp_def)
    with Cons False show ?thesis
      by auto
  qed
qed

lemma sorted_sort_by_timestamp: "sorted (map m_timestamp (sort_cmp by_timestamp xs))"
  by (induction xs) (simp_all add: sorted_insert_by_timestamp)

lemma sorted_filter_timestamps:
  "sorted (map m_timestamp xs) \<Longrightarrow> sorted (map m_timestamp (filter P xs))"
  by (induction xs) auto

text \<open>
  C7. Every notification of the conversation subscription of a and b holds exactly the
  messages between a and b, ascending by timestamp, whatever the order of the stored
  messages. A local notification (the first one and each refresh) carries
  \<open>conversation s a b\<close>: its timestamps are the sorted timestamps of the messages
  between a and b in the store, and as a multiset it is exactly those messages. A remote
  notification carries the messages between a and b of the snapshot, in the order of the
  snapshot, which the query asks ascending by timestamp.
\<close>

theorem conversation_sorted_by_timestamp:
  "local_payload s (SubMessages a b) = Some (PMessages (conversation s a b)) \<and>
   map m_timestamp (conversation s a b) =
     sort (map m_timestamp
       (filter (\<lambda>m. m_senderId m = a \<and> m_receiverId m = b \<or>
                      m_senderId m = b \<and> m_receiverId m = a) (messages s))) \<and>
   mset (conversation s a b) =
     filter_mset (\<lambda>m. m_senderId m = a \<and> m_receiverId m = b \<or>
                       m_senderId m = b \<and> m_receiverId m = a) (mset (messages s)) \<and>
   (sorted (map m_timestamp docs) \<longrightarrow>
      on_snapshot (SubMessages a b) cb (MessagesSnap docs) s =
        invoke cb (PMessages
          (filter (\<lambda>m. m_senderId m = a \<and> m_receiverId m = b \<or>
                         m_senderId m = b \<and> m_receiverId m = a) docs)) s \<and>
      sorted (map m_timestamp
          (filter (\<lambda>m. m_senderId m = a \<and> m_receiverId m = b \<or>
                         m_senderId m = b \<and> m_receiverId m = a) docs)))"
proof -
  let ?P = "\<lambda>m. m_senderId m = a \<and> m_receiverId m = b \<or> m_senderId m = b \<and> m_receiverId m = a"
  have P: "in_conversation a b = ?P"
    by (rule ext) (simp add: in_conversation_def)
  have m: "mset (conversation s a b) = filter_mset ?P (mset (messages s))"
    by (simp add: conversation_def mset_sort_cmp P)
  have srt: "sorted (map m_timestamp (conversation s a b))"
    by (simp add: conversation_def sorted_sort_by_timestamp)
  have "mset (map m_timestamp (conversation s a b)) =
        mset (map m_timestamp (filter ?P (messages s)))"
    using m by simp
  then have "sort (map m_timestamp (filter ?P (messages s))) =
      map m_timestamp (conversation s a b)"
    using srt by (rule properties_for_sort)
  then have ts: "map m_timestamp (conversation s a b) =
      sort (map m_timestamp (filter ?P (messages s)))"
    by (rule sym)
  have l: "local_payload s (SubMessages a b) = Some (PMessages (conversation s a b))"
    by simp
  have r: "sorted (map m_timestamp docs) \<longrightarrow>
      on_snapshot (SubMessages a b) cb (MessagesSnap docs) s =
        invoke cb (PMessages (filter ?P docs)) s \<and>
      sorted (map m_timestamp (filter ?P docs))"
    by (simp add: P sorted_filter_timestamps)
  from l ts m r show ?thesis
    by blast
qed

theorem conversation_sorted_by_timestamp_witness:
  "map m_id (messages out_of_order) = [''m2'', ''m1'', ''mx'', ''m3''] \<and>
   map m_timestamp (conversation out_of_order ''b'' ''a'') = [1, 2, 3] \<and>
   on_snapshot (SubMessages ''b'' ''a'') 7 (MessagesSnap snapshot_docs) out_of_order =
     invoke 7 (PMessages [msg_at ''m1'' ''a'' ''b'' 1 False]) out_of_order"
proof -
  let ?P = "\<lambda>m. m_senderId m = ''b'' \<and> m_receiverId m = ''a'' \<or>
                 m_senderId m = ''a'' \<and> m_receiverId m = ''b''"
  note T = conversation_sorted_by_timestamp [of out_of_order "''b''" "''a''" snapshot_docs 7]
  have h: "sorted (map m_timestamp snapshot_docs)"
    by code_simp
  have ids: "map m_id (messages out_of_order) = [''m2'', ''m1'', ''mx'', ''m3'']"
    by code_simp
  have f: "sort (map m_timestamp (filter ?P (messages out_of_order))) = [1, 2, 3]"
    by code_simp
  have g: "filter ?P snapshot_docs = [msg_at ''m1'' ''a'' ''b'' 1 False]"
    by code_simp
  have ts: "map m_timestamp (conversation out_of_order ''b'' ''a'') = [1, 2, 3]"
    using T f by (elim conjE) (simp only:)
  have "on_snapshot (SubMessages ''b'' ''a'') 7 (MessagesSnap snapshot_docs) out_of_order =
        invoke 7 (PMessages (filter ?P snapshot_docs)) out_of_order"
    using T h by blast
  then have r: "on_snapshot (SubMessages ''b'' ''a'') 7 (MessagesSnap snapshot_docs) out_of_order =
        invoke 7 (PMessages [msg_at ''m1'' ''a'' ''b'' 1 False]) out_of_order"
    by (simp only: g)
  from ids ts r show ?thesis
    by (intro conjI)
qed



section \<open>Failover of the operations\<close>

text \<open>
  C6. In REMOTE mode, when a remote call of a non-subscription operation fails, the
  operation is run again on the Local Simulated Store, the caller gets the result of the
  local run as a normal return, and the mode is LOCAL afterwards. The conjuncts cover
  every remote call of the eight operations: the single call of \<open>getUser\<close>,
  \<open>getUserByUsername\<close>, \<open>saveUser\<close>, \<open>updateUserStatus\<close>, \<open>sendMessage\<close> and
  \<open>sendFriendRequest\<close>, the query and the commit of \<open>markMessagesAsRead\<close>, and the
  read and the two writes of \<open>handleFriendRequest\<close>.
\<close>

theorem remote_failure_retries_locally:
  assumes "\<not> useMock s"
  shows
    "db_getUser s Throws ident = (Returns (mockDb_getUser (demoted s) ident), demoted s) \<and>
     db_getUserByUsername s Throws name =
       (Returns (mockDb_getUserByUsername (demoted s) name), demoted s) \<and>
     db_saveUser s Throws usr = (Returns (), mockDb_saveUser (demoted s) usr) \<and>
     db_updateUserStatus s Throws userId updates =
       (Returns (), mockDb_updateUserStatus (demoted s) userId updates) \<and>
     db_sendMessage s Throws msg = (Returns (), mockDb_sendMessage (demoted s) msg) \<and>
     db_markMessagesAsRead s Throws c userId senderId =
       (Returns (), mockDb_markMessagesAsRead (demoted s) userId senderId) \<and>
     db_markMessagesAsRead s (Returns refs) Throws userId senderId =
       (Returns (), mockDb_markMessagesAsRead (demoted s) userId senderId) \<and>
     db_sendFriendRequest s Throws req = (Returns (), mockDb_sendFriendRequest (demoted s) req) \<and>
     db_handleFriendRequest s Throws u w requestId status now =
       (Returns (), mockDb_handleFriendRequest (demoted s) requestId status now) \<and>
     db_handleFriendRequest s (Returns (Some found)) Throws w requestId status now =
       (Returns (), mockDb_handleFriendRequest (demoted s) requestId status now) \<and>
     db_handleFriendRequest s (Returns (Some found)) (Returns ()) Throws requestId Accepted now =
       (Returns (),
        mockDb_handleFriendRequest
          (demoted (remote_wrote (UpdateRequestStatus requestId Accepted) s))
          requestId Accepted now) \<and>
     useMock (snd (db_getUser s Throws ident)) \<and>
     useMock (snd (db_getUserByUsername s Throws name)) \<and>
     useMock (snd (db_saveUser s Throws usr)) \<and>
     useMock (snd (db_updateUserStatus s Throws userId updates)) \<and>
     useMock (snd (db_sendMessage s Throws msg)) \<and>
     useMock (snd (db_markMessagesAsRead s Throws c userId senderId)) \<and>
     useMock (snd (db_markMessagesAsRead s (Returns refs) Throws userId senderId)) \<and>
     useMock (snd (db_sendFriendRequest s Throws req)) \<and>
     useMock (snd (db_handleFriendRequest s Throws u w requestId status now)) \<and>
     useMock (snd (db_handleFriendRequest s (Returns (Some found)) Throws w requestId status now)) \<and>
     useMock (snd (db_handleFriendRequest s (Returns (Some found)) (Returns ()) Throws
                     requestId Accepted now))"
  using assms
  by (simp add: db_getUser_def db_getUserByUsername_def db_saveUser_def db_updateUserStatus_def
        db_sendMessage_def db_markMessagesAsRead_def db_sendFriendRequest_def
        db_handleFriendRequest_def handleFriendRequest_catch_def demoted_def remote_wrote_def
        Let_def)

theorem remote_failure_retries_locally_witness:
  "db_saveUser remote0 Throws alice = (Returns (), mockDb_saveUser (demoted remote0) alice) \<and>
   users (snd (db_saveUser remote0 Throws alice)) = [alice] \<and>
   useMock (snd (db_saveUser remote0 Throws alice))"
proof -
  have h: "\<not> useMock remote0"
    by code_simp
  have u: "users (mockDb_saveUser (demoted remote0) alice) = [alice]"
    by code_simp
  note T = remote_failure_retries_locally [OF h, of _ _ alice]
  have a: "db_saveUser remote0 Throws alice = (Returns (), mockDb_saveUser (demoted remote0) alice)"
    by (rule T [THEN conjunct2, THEN conjunct2, THEN conjunct1])
  have "useMock (mockDb_saveUser (demoted remote0) alice)"
    by code_simp
  with a have b: "useMock (snd (db_saveUser remote0 Throws alice))"
    by simp
  from a b u show ?thesis
    by simp
qed


section \<open>The mode flag\<close>

text \<open>A callback invocation touches the trace of deliveries and nothing else.\<close>

lemma local_refresh_only_delivers: "\<exists>d. local_refresh spec cb s = s\<lparr>delivered := d\<rparr>"
proof (cases "local_payload s spec")
  case None
  then have "local_refresh spec cb s = s\<lparr>delivered := delivered s\<rparr>"
    by (simp add: local_refresh_def)
  then show ?thesis ..
next
  case (Some p)
  then have "local_refresh spec cb s = s\<lparr>delivered := delivered s @ [(cb, p)]\<rparr>"
    by (simp add: local_refresh_def invoke_def)
  then show ?thesis ..
qed

lemma handler_only_delivers: "\<exists>d. handler e l s = s\<lparr>delivered := d\<rparr>"
proof (cases l)
  case (fields h spec cb)
  show ?thesis
  proof (cases "triggers spec e")
    case True
    with fields local_refresh_only_delivers [of spec cb s] show ?thesis
      by (simp add: handler_def)
  next
    case False
    with fields have "handler e l s = s\<lparr>delivered := delivered s\<rparr>"
      by (simp add: handler_def)
    then show ?thesis ..
  qed
qed

lemma fold_handler_only_delivers: "\<exists>d. fold (handler e) ls s = s\<lparr>delivered := d\<rparr>"
proof (induction ls arbitrary: s)
  case Nil
  have "fold (handler e) [] s = s\<lparr>delivered := delivered s\<rparr>"
    by simp
  then show ?case ..
next
  case (Cons l ls)
  obtain d where d: "handler e l s = s\<lparr>delivered := d\<rparr>"
    using handler_only_delivers by blast
  obtain d' where "fold (handler e) ls (s\<lparr>delivered := d\<rparr>) = s\<lparr>delivered := d\<rparr>\<lparr>delivered := d'\<rparr>"
    using Cons.IH by blast
  with d have "fold (handler e) (l # ls) s = s\<lparr>delivered := d'\<rparr>"
    by simp
  then show ?case ..
qed

lemma deliver_only_delivers: "\<exists>d. deliver e s = s\<lparr>delivered := d\<rparr>"
  unfolding deliver_def by (rule fold_handler_only_delivers)

lemma on_snapshot_only_delivers: "\<exists>d. on_snapshot spec cb snap s = s\<lparr>delivered := d\<rparr>"
proof -
  have "on_snapshot spec cb snap s = s\<lparr>delivered := delivered s\<rparr> \<or>
        (\<exists>p. on_snapshot spec cb snap s = s\<lparr>delivered := delivered s @ [(cb, p)]\<rparr>)"
    by (cases "(spec, cb, snap, s)" rule: on_snapshot.cases)
       (auto simp: invoke_def Let_def split: option.splits outcome.splits)
  then show ?thesis by blast
qed

lemma remote_snapshot_only_delivers: "\<exists>d. remote_snapshot h snap s = s\<lparr>delivered := d\<rparr>"
proof (cases "find_first (\<lambda>l. fst l = h) (remote_listeners s)")
  case None
  then have "remote_snapshot h snap s = s\<lparr>delivered := delivered s\<rparr>"
    by (simp add: remote_snapshot_def)
  then show ?thesis ..
next
  case (Some l)
  then show ?thesis
    using on_snapshot_only_delivers
    by (cases l) (simp add: remote_snapshot_def)
qed

lemma mockDb_subscribe_mode:
  "useMock (snd (mockDb_subscribe s spec cb)) = useMock s"
  "remote_log (snd (mockDb_subscribe s spec cb)) = remote_log s"
proof -
  let ?s1 = "s\<lparr>listeners := listeners s @ [(next_handle s, spec, cb)],
               next_handle := Suc (next_handle s)\<rparr>"
  obtain d where "local_refresh spec cb ?s1 = ?s1\<lparr>delivered := d\<rparr>"
    using local_refresh_only_delivers by blast
  then show "useMock (snd (mockDb_subscribe s spec cb)) = useMock s"
    and "remote_log (snd (mockDb_subscribe s spec cb)) = remote_log s"
    by (simp_all add: mockDb_subscribe_def Let_def)
qed

lemma exec_keeps_local:
  assumes "useMock s"
  shows "useMock (exec s st) \<and> remote_log (exec s st) = remote_log s"
proof (cases st)
  case (Deliver e)
  obtain d where "deliver e s = s\<lparr>delivered := d\<rparr>"
    using deliver_only_delivers by blast
  with assms Deliver show ?thesis by simp
next
  case (RemoteSnapshot h snap)
  obtain d where "remote_snapshot h snap s = s\<lparr>delivered := d\<rparr>"
    using remote_snapshot_only_delivers by blast
  with assms RemoteSnapshot show ?thesis by simp
next
  case (RemoteError h)
  show ?thesis
  proof (cases "find_first (\<lambda>l. fst l = h) (remote_listeners s)")
    case None
    with assms RemoteError show ?thesis by (simp add: remote_error_def)
  next
    case (Some l)
    with assms RemoteError show ?thesis
      by (cases l) (simp add: remote_error_def on_error_def mockDb_subscribe_mode)
  qed
next
  case (Unsubscribe h)
  with assms show ?thesis by (cases h) simp_all
next
  case (Subscribe r spec cb)
  with assms show ?thesis by (simp add: db_subscribe_def mockDb_subscribe_mode)
qed (use assms in \<open>simp_all add: db_getUser_def db_getUserByUsername_def db_saveUser_def
        db_updateUserStatus_def db_sendMessage_def db_markMessagesAsRead_def
        db_sendFriendRequest_def db_handleFriendRequest_def\<close>)

lemma run_keeps_local:
  "useMock s \<Longrightarrow> useMock (run s steps) \<and> remote_log (run s steps) = remote_log s"
proof (induction steps arbitrary: s)
  case Nil
  then show ?case by (simp add: run_def)
next
  case (Cons st steps)
  from Cons.prems have "useMock (exec s st) \<and> remote_log (exec s st) = remote_log s"
    by (rule exec_keeps_local)
  with Cons.IH [of "exec s st"] show ?case
    by (simp add: run_def)
qed

text \<open>
  C5. LOCAL is terminal. Once \<open>useMock\<close> holds, it holds after every sequence of steps
  (calls of \<open>db\<close>, unsubscriptions, deliveries of the channel, snapshots and errors of
  the remote store), no remote write is issued any more, and every operation of \<open>db\<close>
  called then is the operation of \<open>mockDb\<close>, whatever the remote store would answer.
  The flag holds from the start exactly when the key is absent, empty or a placeholder,
  or when the initialisation throws.
\<close>

theorem local_mode_is_terminal:
  "(useMock s \<longrightarrow>
      useMock (run s steps) \<and>
      remote_log (run s steps) = remote_log s \<and>
      db_getUser (run s steps) r1 ident =
        (Returns (mockDb_getUser (run s steps) ident), run s steps) \<and>
      db_getUserByUsername (run s steps) r2 name =
        (Returns (mockDb_getUserByUsername (run s steps) name), run s steps) \<and>
      db_saveUser (run s steps) r3 usr = (Returns (), mockDb_saveUser (run s steps) usr) \<and>
      db_updateUserStatus (run s steps) r4 userId updates =
        (Returns (), mockDb_updateUserStatus (run s steps) userId updates) \<and>
      db_sendMessage (run s steps) r5 msg = (Returns (), mockDb_sendMessage (run s steps) msg) \<and>
      db_markMessagesAsRead (run s steps) r6 r7 userId senderId =
        (Returns (), mockDb_markMessagesAsRead (run s steps) userId senderId) \<and>
      db_sendFriendRequest (run s steps) r8 req =
        (Returns (), mockDb_sendFriendRequest (run s steps) req) \<and>
      db_handleFriendRequest (run s steps) r9 r10 r11 requestId status now =
        (Returns (), mockDb_handleFriendRequest (run s steps) requestId status now) \<and>
      db_subscribe (run s steps) r12 spec cb = mockDb_subscribe (run s steps) spec cb) \<and>
   useMock (module_init apiKey init_throws) =
     ((case apiKey of None \<Rightarrow> True
                    | Some k \<Rightarrow> k = [] \<or> includes_str k ''Placeholder'') \<or> init_throws)"
proof -
  have init: "useMock (module_init apiKey init_throws) =
     ((case apiKey of None \<Rightarrow> True
                    | Some k \<Rightarrow> k = [] \<or> includes_str k ''Placeholder'') \<or> init_throws)"
    by (auto simp: module_init_def init_useMock_def Let_def split: option.splits)
  show ?thesis
  proof (cases "useMock s")
    case False
    with init show ?thesis by simp
  next
    case True
    then have "useMock (run s steps) \<and> remote_log (run s steps) = remote_log s"
      by (rule run_keeps_local)
    with init show ?thesis
      by (simp add: db_getUser_def db_getUserByUsername_def db_saveUser_def
            db_updateUserStatus_def db_sendMessage_def db_markMessagesAsRead_def
            db_sendFriendRequest_def db_handleFriendRequest_def db_subscribe_def)
  qed
qed


theorem local_mode_is_terminal_witness:
  "useMock (run local0 [SaveUser Throws alice, RemoteError 0, GetUser (Returns None) ''u1'']) \<and>
   remote_log (run local0 [SaveUser Throws alice, RemoteError 0, GetUser (Returns None) ''u1'']) = [] \<and>
   fst (db_getUser (run local0 [SaveUser Throws alice, RemoteError 0, GetUser (Returns None) ''u1''])
          (Returns None) ''u1'') = Returns (Some alice)"
proof -
  let ?steps = "[SaveUser Throws alice, RemoteError 0, GetUser (Returns None) ''u1'']"
  have h: "useMock local0"
    by code_simp
  have l: "remote_log local0 = []"
    by code_simp
  have g: "mockDb_getUser (run local0 ?steps) ''u1'' = Some alice"
    by code_simp
  note T = local_mode_is_terminal
    [of local0 ?steps "Returns None" "''u1''", THEN conjunct1, THEN mp, OF h]
  have a: "useMock (run local0 ?steps)"
    by (rule T [THEN conjunct1])
  have b: "remote_log (run local0 ?steps) = remote_log local0"
    by (rule T [THEN conjunct2, THEN conjunct1])
  have c: "db_getUser (run local0 ?steps) (Returns None) ''u1'' =
          (Returns (mockDb_getUser (run local0 ?steps) ''u1''), run local0 ?steps)"
    by (rule T [THEN conjunct2, THEN conjunct2, THEN conjunct1])
  from a b c l g show ?thesis
    by simp
qed


section \<open>Read receipts\<close>

lemma evolves_refl: "evolves ms ms"
  by (simp add: evolves_def)

lemma evolves_trans: "evolves a b \<Longrightarrow> evolves b c \<Longrightarrow> evolves a c"
  unfolding evolves_def
proof (intro conjI allI impI)
  assume ab: "length a \<le> length b \<and>
     (\<forall>i<length a. b ! i = a ! i \<or> \<not> m_isRead (a ! i) \<and> b ! i = (a ! i)\<lparr>m_isRead := True\<rparr>)"
    and bc: "length b \<le> length c \<and>
     (\<forall>i<length b. c ! i = b ! i \<or> \<not> m_isRead (b ! i) \<and> c ! i = (b ! i)\<lparr>m_isRead := True\<rparr>)"
  from ab bc show "length a \<le> length c" by simp
  fix i assume i: "i < length a"
  with ab have 1: "b ! i = a ! i \<or> \<not> m_isRead (a ! i) \<and> b ! i = (a ! i)\<lparr>m_isRead := True\<rparr>"
    by blast
  from i ab have "i < length b" by simp
  with bc have 2: "c ! i = b ! i \<or> \<not> m_isRead (b ! i) \<and> c ! i = (b ! i)\<lparr>m_isRead := True\<rparr>"
    by blast
  from 1 2 show "c ! i = a ! i \<or> \<not> m_isRead (a ! i) \<and> c ! i = (a ! i)\<lparr>m_isRead := True\<rparr>"
    by auto
qed

lemma evolves_append: "evolves ms (ms @ [m])"
  by (simp add: evolves_def nth_append)

lemma markMessagesAsRead_messages:
  "messages (mockDb_markMessagesAsRead s userId senderId) =
     map (\<lambda>m. if m_receiverId m = userId \<and> m_senderId m = senderId \<and> \<not> m_isRead m
               then m\<lparr>m_isRead := True\<rparr> else m) (messages s)"
proof (cases "list_ex (to_mark userId senderId) (messages s)")
  case True
  then show ?thesis
    by (simp add: mockDb_markMessagesAsRead_def set_messages_def to_mark_def)
next
  case False
  then have "\<forall>m \<in> set (messages s). \<not> to_mark userId senderId m"
    by (simp add: list_ex_iff)
  then have "map (\<lambda>m. if to_mark userId senderId m then m\<lparr>m_isRead := True\<rparr> else m) (messages s) =
        messages s"
    by (induction "messages s") (simp_all add: map_idI)
  with False show ?thesis
    by (simp add: mockDb_markMessagesAsRead_def to_mark_def)
qed

lemma evolves_mark: "evolves (messages s) (messages (mockDb_markMessagesAsRead s userId senderId))"
  by (simp add: markMessagesAsRead_messages evolves_def)

lemma mockDb_subscribe_messages: "messages (snd (mockDb_subscribe s spec cb)) = messages s"
proof -
  let ?s1 = "s\<lparr>listeners := listeners s @ [(next_handle s, spec, cb)],
               next_handle := Suc (next_handle s)\<rparr>"
  obtain d where "local_refresh spec cb ?s1 = ?s1\<lparr>delivered := d\<rparr>"
    using local_refresh_only_delivers by blast
  then show ?thesis
    by (simp add: mockDb_subscribe_def Let_def)
qed

lemma exec_evolves: "evolves (messages s) (messages (exec s st))"
proof (cases st)
  case (SendMessage r msg)
  then show ?thesis
    by (cases r) (simp_all add: db_sendMessage_def remote_wrote_def evolves_refl evolves_append)
next
  case (MarkMessagesAsRead q c userId senderId)
  have "evolves (messages (s\<lparr>useMock := True\<rparr>))
          (messages (mockDb_markMessagesAsRead (s\<lparr>useMock := True\<rparr>) userId senderId))"
    by (rule evolves_mark)
  with MarkMessagesAsRead show ?thesis
    by (cases q; cases c)
       (simp_all add: db_markMessagesAsRead_def remote_wrote_def evolves_refl evolves_mark)
next
  case (Deliver e)
  obtain d where "deliver e s = s\<lparr>delivered := d\<rparr>"
    using deliver_only_delivers by blast
  with Deliver show ?thesis by (simp add: evolves_refl)
next
  case (RemoteSnapshot h snap)
  obtain d where "remote_snapshot h snap s = s\<lparr>delivered := d\<rparr>"
    using remote_snapshot_only_delivers by blast
  with RemoteSnapshot show ?thesis by (simp add: evolves_refl)
next
  case (RemoteError h)
  show ?thesis
  proof (cases "find_first (\<lambda>l. fst l = h) (remote_listeners s)")
    case None
    with RemoteError show ?thesis by (simp add: remote_error_def evolves_refl)
  next
    case (Some l)
    with RemoteError show ?thesis
      by (cases l) (simp add: remote_error_def on_error_def mockDb_subscribe_messages evolves_refl)
  qed
next
  case (Unsubscribe h)
  then show ?thesis by (cases h) (simp_all add: evolves_refl)
next
  case (Subscribe r spec cb)
  then show ?thesis
    by (cases r) (simp_all add: db_subscribe_def mockDb_subscribe_messages evolves_refl Let_def)
next
  case (GetUser r ident)
  then show ?thesis by (cases r) (simp_all add: db_getUser_def evolves_refl Let_def)
next
  case (GetUserByUsername r name)
  then show ?thesis by (cases r) (simp_all add: db_getUserByUsername_def evolves_refl Let_def)
next
  case (SaveUser r usr)
  then show ?thesis by (cases r) (simp_all add: db_saveUser_def remote_wrote_def evolves_refl)
next
  case (UpdateUserStatus r userId updates)
  then show ?thesis
    by (cases r) (simp_all add: db_updateUserStatus_def remote_wrote_def evolves_refl)
next
  case (SendFriendRequest r req)
  then show ?thesis
    by (cases r) (simp_all add: db_sendFriendRequest_def remote_wrote_def evolves_refl)
next
  case (HandleFriendRequest g u w requestId status now)
  then show ?thesis
    by (simp add: db_handleFriendRequest_def handleFriendRequest_catch_def remote_wrote_def
          evolves_refl Let_def split: outcome.splits option.splits)
qed

lemma run_evolves: "evolves (messages s) (messages (run s steps))"
proof (induction steps arbitrary: s)
  case Nil
  show ?case by (simp add: run_def evolves_refl)
next
  case (Cons st steps)
  have "evolves (messages s) (messages (exec s st))"
    by (rule exec_evolves)
  moreover have "evolves (messages (exec s st)) (messages (run (exec s st) steps))"
    by (rule Cons.IH)
  ultimately have "evolves (messages s) (messages (run (exec s st) steps))"
    by (rule evolves_trans)
  then show ?case by (simp add: run_def)
qed

text \<open>
  C8, as stated: no operation of \<open>db\<close> sets \<open>isRead\<close> of a read message back to false.
  It fails in REMOTE mode: \<open>db.sendMessage\<close> writes the whole message under its id, so
  sending a message with the id of a read document stores \<open>isRead = False\<close> there.
\<close>

theorem remote_resend_unreads_counterexample:
  "map_option m_isRead (remote_messages Map.empty (run remote0 read_remotely) ''m1'') = Some True \<and>
   map_option m_isRead
     (remote_messages Map.empty (run remote0 (read_remotely @ [resend_same_id])) ''m1'') =
     Some False"
  by code_simp

lemma read_record_marked: "m_isRead m \<Longrightarrow> m\<lparr>m_isRead := True\<rparr> = m"
  by (cases m) simp

lemma apply_write_keeps_read:
  assumes "docs i = Some m" and "m_isRead m" and "\<forall>m'. w \<noteq> SetMessage i m'"
  shows "apply_write docs w i = Some m"
  using assms by (cases w) (auto simp: read_record_marked)

lemma foldl_apply_write_keeps_read:
  "docs i = Some m \<Longrightarrow> m_isRead m \<Longrightarrow> \<forall>w \<in> set ws. \<forall>m'. w \<noteq> SetMessage i m' \<Longrightarrow>
   foldl apply_write docs ws i = Some m"
proof (induction ws arbitrary: docs)
  case Nil
  then show ?case by simp
next
  case (Cons w ws)
  from Cons.prems have "apply_write docs w i = Some m"
    by (intro apply_write_keeps_read) auto
  then have "foldl apply_write (apply_write docs w) ws i = Some m"
    using Cons.prems by (intro Cons.IH) auto
  then show ?case by simp
qed

text \<open>The writes one step adds to the log; a message document is written only by a
  \<open>sendMessage\<close>, under the id of the message sent.\<close>

lemma exec_remote_writes:
  "\<exists>ws. remote_log (exec s st) = remote_log s @ ws \<and>
        (\<forall>w \<in> set ws. \<forall>i m. w = SetMessage i m \<longrightarrow> (\<exists>r. st = SendMessage r m) \<and> m_id m = i)"
proof (cases st)
  case (Deliver e)
  obtain d where "deliver e s = s\<lparr>delivered := d\<rparr>"
    using deliver_only_delivers by blast
  with Deliver show ?thesis by simp
next
  case (RemoteSnapshot h snap)
  obtain d where "remote_snapshot h snap s = s\<lparr>delivered := d\<rparr>"
    using remote_snapshot_only_delivers by blast
  with RemoteSnapshot show ?thesis by simp
next
  case (RemoteError h)
  show ?thesis
  proof (cases "find_first (\<lambda>l. fst l = h) (remote_listeners s)")
    case None
    with RemoteError show ?thesis by (simp add: remote_error_def)
  next
    case (Some l)
    with RemoteError show ?thesis
      by (cases l) (simp add: remote_error_def on_error_def mockDb_subscribe_mode)
  qed
next
  case (Unsubscribe h)
  then show ?thesis by (cases h) simp_all
next
  case (Subscribe r spec cb)
  then show ?thesis
    by (cases r) (simp_all add: db_subscribe_def mockDb_subscribe_mode Let_def)
next
  case (GetUser r ident)
  then show ?thesis by (cases r) (simp_all add: db_getUser_def Let_def)
next
  case (GetUserByUsername r name)
  then show ?thesis by (cases r) (simp_all add: db_getUserByUsername_def Let_def)
next
  case (SaveUser r usr)
  then show ?thesis by (cases r) (simp_all add: db_saveUser_def remote_wrote_def)
next
  case (UpdateUserStatus r userId updates)
  then show ?thesis by (cases r) (simp_all add: db_updateUserStatus_def remote_wrote_def)
next
  case (SendMessage r msg)
  then show ?thesis by (cases r) (simp_all add: db_sendMessage_def remote_wrote_def)
next
  case (MarkMessagesAsRead q c userId senderId)
  then show ?thesis
    by (cases q; cases c) (simp_all add: db_markMessagesAsRead_def remote_wrote_def)
next
  case (SendFriendRequest r req)
  then show ?thesis by (cases r) (simp_all add: db_sendFriendRequest_def remote_wrote_def)
next
  case (HandleFriendRequest g u w requestId status now)
  then show ?thesis
    by (cases g; cases u; cases w)
       (auto simp: db_handleFriendRequest_def handleFriendRequest_catch_def remote_wrote_def
          Let_def split: option.splits)
qed

lemma exec_keeps_remote_read:
  assumes "remote_messages docs0 s i = Some m" and "m_isRead m"
    and "\<forall>r msg. st = SendMessage r msg \<longrightarrow> m_id msg \<noteq> i"
  shows "remote_messages docs0 (exec s st) i = Some m"
proof -
  obtain ws where ws: "remote_log (exec s st) = remote_log s @ ws"
    and only: "\<forall>w \<in> set ws. \<forall>j m'. w = SetMessage j m' \<longrightarrow> (\<exists>r. st = SendMessage r m') \<and> m_id m' = j"
    using exec_remote_writes by blast
  from only assms(3) have "\<forall>w \<in> set ws. \<forall>m'. w \<noteq> SetMessage i m'"
    by blast
  with assms(1,2) have "foldl apply_write (remote_messages docs0 s) ws i = Some m"
    by (intro foldl_apply_write_keeps_read)
  then show ?thesis
    by (simp add: remote_messages_def ws)
qed

lemma run_keeps_remote_read:
  "remote_messages docs0 s i = Some m \<Longrightarrow> m_isRead m \<Longrightarrow>
   \<forall>r msg. SendMessage r msg \<in> set steps \<longrightarrow> m_id msg \<noteq> i \<Longrightarrow>
   remote_messages docs0 (run s steps) i = Some m"
proof (induction steps arbitrary: s)
  case Nil
  then show ?case by (simp add: run_def)
next
  case (Cons st steps)
  from Cons.prems have "remote_messages docs0 (exec s st) i = Some m"
    by (intro exec_keeps_remote_read) auto
  then have "remote_messages docs0 (run (exec s st) steps) i = Some m"
    using Cons.prems by (intro Cons.IH) auto
  then show ?case by (simp add: run_def)
qed

lemma remote_mark_messages:
  "\<not> useMock s \<Longrightarrow>
   remote_messages docs0 (snd (db_markMessagesAsRead s (Returns refs) (Returns ()) userId senderId)) =
     (\<lambda>i. if i \<in> set refs
          then map_option (\<lambda>m. m\<lparr>m_isRead := True\<rparr>) (remote_messages docs0 s i)
          else remote_messages docs0 s i)"
  unfolding remote_messages_def
  by (simp add: db_markMessagesAsRead_def remote_wrote_def)

text \<open>
  C8, amended. In the local store \<open>isRead\<close> never goes back to false: after any sequence
  of steps, in every mode, every message is still at its position and is either the same
  record or the record with \<open>isRead\<close> turned from false to true; a message that was read
  is the same record. \<open>mockDb.markMessagesAsRead\<close> turns \<open>isRead\<close> to true on the unread
  messages of the given sender to the given receiver and leaves every other message as
  it was. In the remote store a read document stays as it is through every sequence of
  steps that sends no message with its id, and the batch of \<open>markMessagesAsRead\<close> sets
  \<open>isRead\<close> to true on the documents the query answered and leaves the others alone.
\<close>

theorem isRead_reverts_only_by_resend:
  "(\<forall>i < length (messages s).
      i < length (messages (run s steps)) \<and>
      (messages (run s steps) ! i = messages s ! i \<or>
       \<not> m_isRead (messages s ! i) \<and>
       messages (run s steps) ! i = (messages s ! i)\<lparr>m_isRead := True\<rparr>) \<and>
      (m_isRead (messages s ! i) \<longrightarrow> m_isRead (messages (run s steps) ! i))) \<and>
   messages (mockDb_markMessagesAsRead s userId senderId) =
     map (\<lambda>m. if m_receiverId m = userId \<and> m_senderId m = senderId \<and> \<not> m_isRead m
               then m\<lparr>m_isRead := True\<rparr> else m) (messages s) \<and>
   (\<forall>i m. remote_messages docs0 s i = Some m \<and> m_isRead m \<and>
          (\<forall>r msg. SendMessage r msg \<in> set steps \<longrightarrow> m_id msg \<noteq> i) \<longrightarrow>
          remote_messages docs0 (run s steps) i = Some m) \<and>
   (\<not> useMock s \<longrightarrow>
      remote_messages docs0
          (snd (db_markMessagesAsRead s (Returns refs) (Returns ()) userId senderId)) =
        (\<lambda>i. if i \<in> set refs
             then map_option (\<lambda>m. m\<lparr>m_isRead := True\<rparr>) (remote_messages docs0 s i)
             else remote_messages docs0 s i))"
proof -
  have "evolves (messages s) (messages (run s steps))"
    by (rule run_evolves)
  then have loc: "\<forall>i < length (messages s).
      i < length (messages (run s steps)) \<and>
      (messages (run s steps) ! i = messages s ! i \<or>
       \<not> m_isRead (messages s ! i) \<and>
       messages (run s steps) ! i = (messages s ! i)\<lparr>m_isRead := True\<rparr>) \<and>
      (m_isRead (messages s ! i) \<longrightarrow> m_isRead (messages (run s steps) ! i))"
    unfolding evolves_def by auto
  have rem: "\<forall>i m. remote_messages docs0 s i = Some m \<and> m_isRead m \<and>
          (\<forall>r msg. SendMessage r msg \<in> set steps \<longrightarrow> m_id msg \<noteq> i) \<longrightarrow>
          remote_messages docs0 (run s steps) i = Some m"
    using run_keeps_remote_read by blast
  from loc rem markMessagesAsRead_messages remote_mark_messages show ?thesis
    by blast
qed

theorem isRead_reverts_only_by_resend_witness:
  "map m_isRead (messages read_once) = [True] \<and>
   map m_isRead (messages (run read_once later_steps)) = [True, False] \<and>
   messages (run read_once later_steps) ! 0 = messages read_once ! 0 \<and>
   m_isRead (messages (run read_once later_steps) ! 0) \<and>
   remote_messages Map.empty (run remote0 read_remotely) ''m1'' = Some m1_read \<and>
   remote_messages Map.empty (run (run remote0 read_remotely) other_sends) ''m1'' = Some m1_read \<and>
   remote_messages Map.empty
     (snd (db_markMessagesAsRead (run remote0 read_remotely) (Returns [''m1'']) (Returns ())
             ''b'' ''a'')) ''m1'' = Some m1_read"
proof -
  have a: "map m_isRead (messages read_once) = [True]"
    by code_simp
  have b: "map m_isRead (messages (run read_once later_steps)) = [True, False]"
    by code_simp
  from a have len: "0 < length (messages read_once)" and rd: "m_isRead (messages read_once ! 0)"
    by (auto simp: map_eq_Cons_conv)
  note T = isRead_reverts_only_by_resend
    [of read_once later_steps, THEN conjunct1, rule_format, OF len]
  from T rd have c: "m_isRead (messages (run read_once later_steps) ! 0)"
    by blast
  from T rd have d: "messages (run read_once later_steps) ! 0 = messages read_once ! 0"
    by blast
  have e: "remote_messages Map.empty (run remote0 read_remotely) ''m1'' = Some m1_read"
    by code_simp
  have r: "m_isRead m1_read"
    by code_simp
  have o: "\<forall>r msg. SendMessage r msg \<in> set other_sends \<longrightarrow> m_id msg \<noteq> ''m1''"
    by (auto simp: other_sends_def msg_at_def)
  have f: "remote_messages Map.empty (run (run remote0 read_remotely) other_sends) ''m1'' =
      Some m1_read"
    using isRead_reverts_only_by_resend
      [of "run remote0 read_remotely" other_sends _ _ Map.empty,
       THEN conjunct2, THEN conjunct2, THEN conjunct1, rule_format, of "''m1''" m1_read]
      e r o by blast
  have m: "\<not> useMock (run remote0 read_remotely)"
    by code_simp
  have "remote_messages Map.empty
     (snd (db_markMessagesAsRead (run remote0 read_remotely) (Returns [''m1'']) (Returns ())
             ''b'' ''a'')) =
      (\<lambda>i. if i \<in> set [''m1'']
           then map_option (\<lambda>m. m\<lparr>m_isRead := True\<rparr>)
                  (remote_messages Map.empty (run remote0 read_remotely) i)
           else remote_messages Map.empty (run remote0 read_remotely) i)"
    by (rule isRead_reverts_only_by_resend
      [of "run remote0 read_remotely" _ "''b''" "''a''" Map.empty "[''m1'']",
       THEN conjunct2, THEN conjunct2, THEN conjunct2, THEN mp, OF m])
  then have g: "remote_messages Map.empty
     (snd (db_markMessagesAsRead (run remote0 read_remotely) (Returns [''m1'']) (Returns ())
             ''b'' ''a'')) ''m1'' = Some m1_read"
    using e by (simp add: m1_read_def msg_at_def)
  from a b d c e f g show ?thesis
    by (intro conjI)
qed


section \<open>Failover of the subscriptions\<close>

lemma local_payload_delivered [simp]:
  "local_payload (s\<lparr>delivered := d\<rparr>) spec = local_payload s spec"
  by (cases spec)
     (simp_all add: mockDb_getUser_def friends_of_def conversation_def incoming_def)

lemma notification_delivered [simp]:
  "notification (s\<lparr>delivered := d\<rparr>) e l = notification s e l"
  by (simp add: notification_def split: prod.splits)

lemma handler_appends: "handler e l s = s\<lparr>delivered := delivered s @ notification s e l\<rparr>"
  by (cases l) (simp add: handler_def notification_def local_refresh_def invoke_def
        split: option.splits)

lemma fold_handler_appends:
  "fold (handler e) ls s = s\<lparr>delivered := delivered s @ concat (map (notification s e) ls)\<rparr>"
proof (induction ls arbitrary: s)
  case Nil
  show ?case by simp
next
  case (Cons l ls)
  have "fold (handler e) (l # ls) s =
        fold (handler e) ls (s\<lparr>delivered := delivered s @ notification s e l\<rparr>)"
    by (simp add: handler_appends)
  also have "\<dots> = s\<lparr>delivered := (delivered s @ notification s e l) @
                                  concat (map (notification s e) ls)\<rparr>"
    by (simp add: Cons.IH)
  finally show ?case by simp
qed

lemma deliver_appends:
  "deliver e s = s\<lparr>delivered := delivered s @ concat (map (notification s e) (listeners s))\<rparr>"
  by (simp add: deliver_def fold_handler_appends)

lemma registered_listener_notified:
  assumes "(n, spec, cb) \<in> set (listeners s)" and "triggers spec e"
    and "local_payload s spec = Some p"
  shows "(cb, p) \<in> set (drop (length (delivered s)) (delivered (deliver e s)))"
proof -
  from assms have "(cb, p) \<in> set (notification s e (n, spec, cb))"
    by (simp add: notification_def)
  with assms(1) have "(cb, p) \<in> set (concat (map (notification s e) (listeners s)))"
    by auto
  then show ?thesis
    by (simp add: deliver_appends)
qed

lemma mockDb_subscribe_state:
  "snd (mockDb_subscribe s spec cb) =
     s\<lparr>listeners := listeners s @ [(next_handle s, spec, cb)],
       next_handle := Suc (next_handle s),
       delivered := delivered s @
         (case local_payload s spec of None \<Rightarrow> [] | Some p \<Rightarrow> [(cb, p)])\<rparr>"
proof -
  let ?s1 = "s\<lparr>listeners := listeners s @ [(next_handle s, spec, cb)],
               next_handle := Suc (next_handle s)\<rparr>"
  have "local_payload ?s1 spec = local_payload s spec"
    by (cases spec)
       (simp_all add: mockDb_getUser_def friends_of_def conversation_def incoming_def)
  then show ?thesis
    by (simp add: mockDb_subscribe_def local_refresh_def invoke_def Let_def split: option.splits)
qed

lemma exec_keeps_listener:
  assumes "(n, spec, cb) \<in> set (listeners s)" and "st \<noteq> Unsubscribe (LocalHandle n)"
  shows "(n, spec, cb) \<in> set (listeners (exec s st))"
proof (cases st)
  case (Deliver e)
  with assms show ?thesis by (simp add: deliver_appends)
next
  case (RemoteSnapshot h snap)
  show ?thesis
  proof (cases "find_first (\<lambda>l. fst l = h) (remote_listeners s)")
    case None
    with assms RemoteSnapshot show ?thesis by (simp add: remote_snapshot_def)
  next
    case (Some l)
    obtain h' spec' cb' where l: "l = (h', spec', cb')" by (cases l)
    have "listeners (on_snapshot spec' cb' snap s) = listeners s"
      by (cases "(spec', cb', snap, s)" rule: on_snapshot.cases)
         (simp_all add: invoke_def Let_def split: option.splits outcome.splits prod.splits)
    with assms RemoteSnapshot Some l show ?thesis by (simp add: remote_snapshot_def)
  qed
next
  case (RemoteError h)
  show ?thesis
  proof (cases "find_first (\<lambda>l. fst l = h) (remote_listeners s)")
    case None
    with assms RemoteError show ?thesis by (simp add: remote_error_def)
  next
    case (Some l)
    with assms RemoteError show ?thesis
      by (cases l) (simp add: remote_error_def on_error_def mockDb_subscribe_state)
  qed
next
  case (Unsubscribe hd)
  with assms show ?thesis by (cases hd) auto
next
  case (Subscribe r spec' cb')
  with assms show ?thesis
    by (cases r) (simp_all add: db_subscribe_def mockDb_subscribe_state Let_def)
next
  case (GetUser r ident)
  with assms show ?thesis by (cases r) (simp_all add: db_getUser_def Let_def)
next
  case (GetUserByUsername r name)
  with assms show ?thesis by (cases r) (simp_all add: db_getUserByUsername_def Let_def)
next
  case (SaveUser r usr)
  with assms show ?thesis by (cases r) (simp_all add: db_saveUser_def remote_wrote_def)
next
  case (UpdateUserStatus r userId updates)
  with assms show ?thesis by (cases r) (simp_all add: db_updateUserStatus_def remote_wrote_def)
next
  case (SendMessage r msg)
  with assms show ?thesis by (cases r) (simp_all add: db_sendMessage_def remote_wrote_def)
next
  case (MarkMessagesAsRead q c userId senderId)
  with assms show ?thesis
    by (cases q; cases c) (simp_all add: db_markMessagesAsRead_def remote_wrote_def)
next
  case (SendFriendRequest r req)
  with assms show ?thesis by (cases r) (simp_all add: db_sendFriendRequest_def remote_wrote_def)
next
  case (HandleFriendRequest g u w requestId status now)
  with assms show ?thesis
    by (simp add: db_handleFriendRequest_def handleFriendRequest_catch_def remote_wrote_def
          Let_def split: outcome.splits option.splits)
qed

lemma run_keeps_listener:
  "(n, spec, cb) \<in> set (listeners s) \<Longrightarrow> Unsubscribe (LocalHandle n) \<notin> set steps \<Longrightarrow>
   (n, spec, cb) \<in> set (listeners (run s steps))"
proof (induction steps arbitrary: s)
  case Nil
  then show ?case by (simp add: run_def)
next
  case (Cons st steps)
  from Cons.prems have "(n, spec, cb) \<in> set (listeners (exec s st))"
    by (intro exec_keeps_listener) auto
  moreover from Cons.prems have "Unsubscribe (LocalHandle n) \<notin> set steps"
    by simp
  ultimately have "(n, spec, cb) \<in> set (listeners (run (exec s st) steps))"
    by (rule Cons.IH)
  then show ?case by (simp add: run_def)
qed

lemma find_first_distinct:
  "distinct (map fst ls) \<Longrightarrow> l \<in> set ls \<Longrightarrow> find_first (\<lambda>x. fst x = fst l) ls = Some l"
  by (induction ls) (auto simp: rev_image_eqI)

text \<open>
  C3, as stated: every subscription opened in REMOTE mode, a user subscription included,
  keeps delivering after its transport failed. It fails for the user subscription: the
  user \<open>u1\<close> is held by the remote store only, so after the failure the local handler
  finds no user (\<^verbatim>\<open>u && callback(u)\<close>) and callback 8 is not invoked, neither by the
  new subscription nor by the two messages of the channel it listens to.
\<close>

theorem user_subscription_silent_counterexample:
  "\<not> useMock (run remote0 user_sub_before) \<and>
   remote_listeners (run remote0 user_sub_before) = [(0, SubUser ''u1'', 8)] \<and>
   delivered (run remote0 user_sub_before) = [(8, PUser alice)] \<and>
   useMock (run remote0 (user_sub_before @ [RemoteError 0])) \<and>
   listeners (run remote0 (user_sub_before @ [RemoteError 0])) = [(1, SubUser ''u1'', 8)] \<and>
   triggers (SubUser ''u1'') (UserUpdate ''u1'' no_updates) \<and>
   triggers (SubUser ''u1'') (Sync Users) \<and>
   delivered (run remote0 (user_sub_before @ [RemoteError 0] @ user_sub_after)) =
     [(8, PUser alice)]"
  by code_simp

lemma notification_member:
  assumes "(c, p) \<in> set (notification u e (h', spec', cb'))"
  shows "cb' = c \<and> local_payload u spec' = Some p"
proof (cases "triggers spec' e")
  case True
  with assms show ?thesis
    unfolding notification_def by (cases "local_payload u spec'") simp_all
next
  case False
  with assms show ?thesis
    unfolding notification_def by simp
qed

lemma silent_without_payload:
  assumes "local_payload u spec = None"
    and "\<forall>l \<in> set (listeners u). snd (snd l) = cb \<longrightarrow> fst (snd l) = spec"
  shows "(cb, p) \<notin> set (drop (length (delivered u)) (delivered (deliver e u)))"
proof
  assume "(cb, p) \<in> set (drop (length (delivered u)) (delivered (deliver e u)))"
  then have "(cb, p) \<in> set (concat (map (notification u e) (listeners u)))"
    by (simp add: deliver_appends)
  then have "\<exists>l \<in> set (listeners u). (cb, p) \<in> set (notification u e l)"
    by simp
  then obtain l where l: "l \<in> set (listeners u)" and in_l: "(cb, p) \<in> set (notification u e l)"
    by blast
  obtain h' spec' cb' where f: "l = (h', spec', cb')" by (cases l)
  from in_l f have m: "cb' = cb \<and> local_payload u spec' = Some p"
    by (intro notification_member) simp
  moreover from m l f assms(2) have "spec' = spec" by auto
  ultimately show False using assms(1) by simp
qed

text \<open>
  C3, amended. When the transport of a subscription that is registered with the remote
  store fails, the error callback sets the mode to LOCAL and subscribes the same
  callback, for the same thing, on the Local Simulated Store: the state is the one
  \<open>mockDb_subscribe\<close> gives, with one more local listener, and the caller does nothing.
  From then on, after any steps, every message of the channel that this kind of
  subscription listens to hands the callback what the local store holds at that moment,
  when it holds something to hand over. That is always so for the friends, the messages
  and the incoming requests; a user subscription has nothing to hand over exactly when
  the local store does not hold the user, and then its callback is not invoked. The
  registrations of the remote store have distinct numbers, as in every state the process
  can reach (\<open>reachable_handles_distinct\<close> below).
\<close>

theorem failover_resubscribes_locally:
  assumes "distinct (map fst (remote_listeners s))"
    and "(h, spec, cb) \<in> set (remote_listeners s)"
  shows
    "useMock (remote_error h s) \<and>
     listeners (remote_error h s) = listeners s @ [(next_handle s, spec, cb)] \<and>
     remote_error h s =
       snd (mockDb_subscribe
              (s\<lparr>remote_listeners := filter (\<lambda>l. fst l \<noteq> h) (remote_listeners s),
                 useMock := True\<rparr>) spec cb) \<and>
     (\<forall>steps e p.
        Unsubscribe (LocalHandle (next_handle s)) \<notin> set steps \<and> triggers spec e \<and>
        local_payload (run (remote_error h s) steps) spec = Some p \<longrightarrow>
        (cb, p) \<in> set (drop (length (delivered (run (remote_error h s) steps)))
                          (delivered (deliver e (run (remote_error h s) steps))))) \<and>
     (\<forall>steps e p.
        local_payload (run (remote_error h s) steps) spec = None \<and>
        (\<forall>l \<in> set (listeners (run (remote_error h s) steps)).
           snd (snd l) = cb \<longrightarrow> fst (snd l) = spec) \<longrightarrow>
        (cb, p) \<notin> set (drop (length (delivered (run (remote_error h s) steps)))
                          (delivered (deliver e (run (remote_error h s) steps))))) \<and>
     (\<forall>u. (local_payload u spec = None) =
          (\<exists>uid. spec = SubUser uid \<and> mockDb_getUser u uid = None))"
proof -
  let ?t = "remote_error h s"
  have ff: "find_first (\<lambda>l. fst l = h) (remote_listeners s) = Some (h, spec, cb)"
    using find_first_distinct [OF assms] by simp
  then have eq: "?t =
       snd (mockDb_subscribe
              (s\<lparr>remote_listeners := filter (\<lambda>l. fst l \<noteq> h) (remote_listeners s),
                 useMock := True\<rparr>) spec cb)"
    by (simp add: remote_error_def on_error_def)
  then have mode: "useMock ?t" and ls: "listeners ?t = listeners s @ [(next_handle s, spec, cb)]"
    by (simp_all add: mockDb_subscribe_state)
  have later: "(cb, p) \<in> set (drop (length (delivered (run ?t steps)))
                          (delivered (deliver e (run ?t steps))))"
    if "Unsubscribe (LocalHandle (next_handle s)) \<notin> set steps" and "triggers spec e"
      and "local_payload (run ?t steps) spec = Some p" for steps e p
  proof -
    from ls have "(next_handle s, spec, cb) \<in> set (listeners ?t)"
      by simp
    then have "(next_handle s, spec, cb) \<in> set (listeners (run ?t steps))"
      using that(1) by (rule run_keeps_listener)
    then show ?thesis
      using that(2,3) by (rule registered_listener_notified)
  qed
  have silent: "\<forall>steps e p.
        local_payload (run ?t steps) spec = None \<and>
        (\<forall>l \<in> set (listeners (run ?t steps)). snd (snd l) = cb \<longrightarrow> fst (snd l) = spec) \<longrightarrow>
        (cb, p) \<notin> set (drop (length (delivered (run ?t steps)))
                          (delivered (deliver e (run ?t steps))))"
    using silent_without_payload by blast
  have none: "\<forall>u. (local_payload u spec = None) =
          (\<exists>uid. spec = SubUser uid \<and> mockDb_getUser u uid = None)"
    by (simp add: local_payload_None)
  from mode ls eq later silent none show ?thesis
    by blast
qed

theorem failover_resubscribes_locally_witness:
  "fst (db_subscribeToMessages remote0 (Returns ()) ''a'' ''b'' 7) = RemoteHandle 0 \<and>
   useMock (remote_error 0 sub_open) \<and>
   listeners (remote_error 0 sub_open) = [(1, SubMessages ''a'' ''b'', 7)] \<and>
   (7, PMessages [msg_ab]) \<in>
     set (drop (length (delivered (run (remote_error 0 sub_open) after_failover)))
            (delivered (deliver (Sync Messages) (run (remote_error 0 sub_open) after_failover)))) \<and>
   listeners (remote_error 0 sub_user_open) = [(1, SubUser ''u9'', 8)] \<and>
   local_payload (remote_error 0 sub_user_open) (SubUser ''u9'') = None \<and>
   mockDb_getUser (remote_error 0 sub_user_open) ''u9'' = None \<and>
   (8, PUser alice) \<notin>
     set (drop (length (delivered (run (remote_error 0 sub_user_open) [])))
            (delivered (deliver (Sync Users) (run (remote_error 0 sub_user_open) []))))"
proof -
  have d: "distinct (map fst (remote_listeners sub_open))"
    by code_simp
  have m: "(0, SubMessages ''a'' ''b'', 7) \<in> set (remote_listeners sub_open)"
    by code_simp
  have hd: "fst (db_subscribeToMessages remote0 (Returns ()) ''a'' ''b'' 7) = RemoteHandle 0"
    by code_simp
  have n: "next_handle sub_open = 1" and l: "listeners sub_open = []"
    by code_simp+
  note T = failover_resubscribes_locally [OF d m]
  have a: "useMock (remote_error 0 sub_open)"
    by (rule T [THEN conjunct1])
  have b: "listeners (remote_error 0 sub_open) = [(1, SubMessages ''a'' ''b'', 7)]"
    using T [THEN conjunct2, THEN conjunct1] n l by simp
  have u: "Unsubscribe (LocalHandle (next_handle sub_open)) \<notin> set after_failover"
    by (simp add: after_failover_def)
  have t: "triggers (SubMessages ''a'' ''b'') (Sync Messages)"
    by simp
  have p: "local_payload (run (remote_error 0 sub_open) after_failover) (SubMessages ''a'' ''b'') =
           Some (PMessages [msg_ab])"
    by code_simp
  have c: "(7, PMessages [msg_ab]) \<in>
     set (drop (length (delivered (run (remote_error 0 sub_open) after_failover)))
            (delivered (deliver (Sync Messages) (run (remote_error 0 sub_open) after_failover))))"
    using T [THEN conjunct2, THEN conjunct2, THEN conjunct2, THEN conjunct1, rule_format,
             of after_failover "Sync Messages" "PMessages [msg_ab]"] u t p
    by blast
  have d': "distinct (map fst (remote_listeners sub_user_open))"
    by code_simp
  have m': "(0, SubUser ''u9'', 8) \<in> set (remote_listeners sub_user_open)"
    by code_simp
  note U = failover_resubscribes_locally [OF d' m']
  have ls: "listeners (remote_error 0 sub_user_open) = [(1, SubUser ''u9'', 8)]"
    by code_simp
  have e: "local_payload (remote_error 0 sub_user_open) (SubUser ''u9'') = None"
    by code_simp
  from U [THEN conjunct2, THEN conjunct2, THEN conjunct2, THEN conjunct2, THEN conjunct2,
      rule_format, of "remote_error 0 sub_user_open"] e
  have f: "mockDb_getUser (remote_error 0 sub_user_open) ''u9'' = None"
    by simp
  have r: "run (remote_error 0 sub_user_open) [] = remote_error 0 sub_user_open"
    by (simp add: run_def)
  have only: "\<forall>l \<in> set (listeners (run (remote_error 0 sub_user_open) [])).
      snd (snd l) = 8 \<longrightarrow> fst (snd l) = SubUser ''u9''"
    by (simp add: r ls)
  have e': "local_payload (run (remote_error 0 sub_user_open) []) (SubUser ''u9'') = None"
    by (simp only: r e)
  have g: "(8, PUser alice) \<notin>
     set (drop (length (delivered (run (remote_error 0 sub_user_open) [])))
            (delivered (deliver (Sync Users) (run (remote_error 0 sub_user_open) []))))"
    using U [THEN conjunct2, THEN conjunct2, THEN conjunct2, THEN conjunct2, THEN conjunct1,
      rule_format, of "[]" "PUser alice" "Sync Users"] e' only
    by blast
  from hd a b c ls e f g show ?thesis
    by (intro conjI)
qed

text \<open>The numbers of the remote registrations are distinct in every reachable state.\<close>

lemma handles_ok_filter:
  "handles_ok s \<Longrightarrow> handles_ok (s\<lparr>remote_listeners := filter P (remote_listeners s)\<rparr>)"
  by (simp add: handles_ok_def list_all_iff distinct_map_filter)

lemma handles_ok_frame:
  "remote_listeners t = remote_listeners s \<Longrightarrow> next_handle s \<le> next_handle t \<Longrightarrow>
   handles_ok s \<Longrightarrow> handles_ok t"
  by (auto simp: handles_ok_def list_all_iff)

lemma handles_ok_exec: "handles_ok s \<Longrightarrow> handles_ok (exec s st)"
proof (cases st)
  case (Deliver e)
  assume "handles_ok s"
  with Deliver show ?thesis
    by (simp add: deliver_appends handles_ok_def)
next
  case (RemoteSnapshot h snap)
  assume ok: "handles_ok s"
  show ?thesis
  proof (cases "find_first (\<lambda>l. fst l = h) (remote_listeners s)")
    case None
    with ok RemoteSnapshot show ?thesis by (simp add: remote_snapshot_def)
  next
    case (Some l)
    obtain h' spec' cb' where l: "l = (h', spec', cb')" by (cases l)
    have "remote_listeners (on_snapshot spec' cb' snap s) = remote_listeners s \<and>
          next_handle (on_snapshot spec' cb' snap s) = next_handle s"
      by (cases "(spec', cb', snap, s)" rule: on_snapshot.cases)
         (simp_all add: invoke_def Let_def split: option.splits outcome.splits prod.splits)
    with ok RemoteSnapshot Some l show ?thesis
      by (simp add: remote_snapshot_def handles_ok_def)
  qed
next
  case (RemoteError h)
  assume ok: "handles_ok s"
  show ?thesis
  proof (cases "find_first (\<lambda>l. fst l = h) (remote_listeners s)")
    case None
    with ok RemoteError show ?thesis by (simp add: remote_error_def)
  next
    case (Some l)
    obtain h' spec' cb' where l: "l = (h', spec', cb')" by (cases l)
    from ok have "handles_ok (s\<lparr>remote_listeners := filter (\<lambda>l. fst l \<noteq> h) (remote_listeners s)\<rparr>)"
      by (rule handles_ok_filter)
    then have "handles_ok (on_error spec' cb'
                 (s\<lparr>remote_listeners := filter (\<lambda>l. fst l \<noteq> h) (remote_listeners s)\<rparr>))"
      by (rule handles_ok_frame [rotated 2])
         (simp_all add: on_error_def mockDb_subscribe_state)
    with RemoteError Some l show ?thesis
      by (simp add: remote_error_def)
  qed
next
  case (Unsubscribe hd)
  assume ok: "handles_ok s"
  show ?thesis
  proof (cases hd)
    case (LocalHandle n)
    with ok Unsubscribe show ?thesis by (simp add: handles_ok_def)
  next
    case (RemoteHandle n)
    with Unsubscribe handles_ok_filter [OF ok] show ?thesis by simp
  qed
next
  case (Subscribe r spec' cb')
  assume "handles_ok s"
  with Subscribe show ?thesis
    by (cases r)
       (auto simp: db_subscribe_def mockDb_subscribe_state Let_def handles_ok_def list_all_iff)
next
  case (GetUser r ident)
  assume "handles_ok s"
  with GetUser show ?thesis
    by (cases r) (simp_all add: db_getUser_def Let_def handles_ok_def)
next
  case (GetUserByUsername r name)
  assume "handles_ok s"
  with GetUserByUsername show ?thesis
    by (cases r) (simp_all add: db_getUserByUsername_def Let_def handles_ok_def)
next
  case (SaveUser r usr)
  assume "handles_ok s"
  with SaveUser show ?thesis
    by (cases r) (simp_all add: db_saveUser_def remote_wrote_def handles_ok_def)
next
  case (UpdateUserStatus r userId updates)
  assume "handles_ok s"
  with UpdateUserStatus show ?thesis
    by (cases r) (simp_all add: db_updateUserStatus_def remote_wrote_def handles_ok_def)
next
  case (SendMessage r msg)
  assume "handles_ok s"
  with SendMessage show ?thesis
    by (cases r) (simp_all add: db_sendMessage_def remote_wrote_def handles_ok_def)
next
  case (MarkMessagesAsRead q c userId senderId)
  assume "handles_ok s"
  with MarkMessagesAsRead show ?thesis
    by (cases q; cases c)
       (simp_all add: db_markMessagesAsRead_def remote_wrote_def handles_ok_def)
next
  case (SendFriendRequest r req)
  assume "handles_ok s"
  with SendFriendRequest show ?thesis
    by (cases r) (simp_all add: db_sendFriendRequest_def remote_wrote_def handles_ok_def)
next
  case (HandleFriendRequest g u w requestId status now)
  assume "handles_ok s"
  with HandleFriendRequest show ?thesis
    by (simp add: db_handleFriendRequest_def handleFriendRequest_catch_def remote_wrote_def
          handles_ok_def Let_def split: outcome.splits option.splits)
qed

lemma reachable_handles_distinct:
  "distinct (map fst (remote_listeners (run (module_init apiKey init_throws) steps)))"
proof -
  have "handles_ok s \<Longrightarrow> handles_ok (run s steps)" for s
  proof (induction steps arbitrary: s)
    case Nil
    then show ?case by (simp add: run_def)
  next
    case (Cons st steps)
    from Cons.prems have "handles_ok (exec s st)"
      by (rule handles_ok_exec)
    then have "handles_ok (run (exec s st) steps)"
      by (rule Cons.IH)
    then show ?case by (simp add: run_def)
  qed
  moreover have "handles_ok (module_init apiKey init_throws)"
    by (simp add: handles_ok_def module_init_def)
  ultimately show ?thesis
    by (simp add: handles_ok_def)
qed

text \<open>
  C4. After the function a subscription returned is called, the callback is not invoked
  again and the listener is released, also when the backend failed over in between.
  The code does this in LOCAL mode and misses it after a failover: the error callback
  drops the function \<open>mockDb.subscribeTo...\<close> returns, so the caller holds only the
  function of the remote registration. With the conversation subscription of a and b
  opened in REMOTE mode, its transport failing, and the caller cancelling it, the local
  listener 1 is still registered, and the next \<open>sync\<close> of the messages invokes callback 7
  again. The same subscription opened and cancelled in LOCAL mode is released and silent.
\<close>

theorem unsubscribe_after_failover_leaks:
  "fst (db_subscribeToMessages remote0 (Returns ()) ''a'' ''b'' 7) = RemoteHandle 0 \<and>
   remote_listeners (run remote0 leak_steps) = [] \<and>
   listeners (run remote0 leak_steps) = [(1, SubMessages ''a'' ''b'', 7)] \<and>
   delivered (run remote0 leak_steps) = [(7, PMessages [])] \<and>
   delivered (run remote0 (leak_steps @ [SendMessage Throws msg_ab, Deliver (Sync Messages)])) =
     [(7, PMessages []), (7, PMessages [msg_ab])] \<and>
   fst (db_subscribeToMessages local0 (Returns ()) ''a'' ''b'' 7) = LocalHandle 0 \<and>
   listeners (run local0 local_steps) = [] \<and>
   delivered (run local0 (local_steps @ [SendMessage Throws msg_ab, Deliver (Sync Messages)])) =
     [(7, PMessages [])]"
  by code_simp

text \<open>Cancelling a local subscription removes its handler, so nothing is delivered
  through it afterwards.\<close>

lemma local_payload_listeners [simp]:
  "local_payload (s\<lparr>listeners := ls\<rparr>) spec = local_payload s spec"
  by (cases spec)
     (simp_all add: mockDb_getUser_def friends_of_def conversation_def incoming_def)

lemma notification_listeners:
  "notification (s\<lparr>listeners := ls\<rparr>) e = notification s e"
  by (rule ext) (simp add: notification_def split: prod.splits)

lemma unsubscribe_local_releases:
  "listeners (unsubscribe (LocalHandle n) s) = filter (\<lambda>l. fst l \<noteq> n) (listeners s) \<and>
   delivered (deliver e (unsubscribe (LocalHandle n) s)) =
     delivered s @ concat (map (notification s e) (filter (\<lambda>l. fst l \<noteq> n) (listeners s)))"
  by (simp add: deliver_appends notification_listeners)


section \<open>Registration\<close>

text \<open>
  C9. Registering a username that an existing user holds fails with
  \<open>Username already taken.\<close> and saves nothing, also when only the letter case
  differs. In LOCAL mode the code does this: \<open>mockDb.getUserByUsername\<close> compares the
  lower-cased names. In REMOTE mode \<open>db.getUserByUsername\<close> asks the remote store for
  the documents whose \<open>username\<close> equals the typed string: with the user \<open>Alice\<close>
  stored, registering \<open>Alice\<close> is refused, and registering \<open>alice\<close> finds no document
  and writes a second user.
\<close>

theorem remote_registration_is_case_sensitive:
  "where_username_eq [alice] ''Alice'' = [alice] \<and>
   where_username_eq [alice] ''alice'' = [] \<and>
   handleAuth remote0 plain True False ''Alice'' ''pw'' ''u2'' 5
       (Returns (where_username_eq [alice] ''Alice'')) (Returns ()) =
     (AuthError ''Username already taken.'', remote0) \<and>
   handleAuth remote0 plain True False ''alice'' ''pw'' ''u2'' 5
       (Returns (where_username_eq [alice] ''alice'')) (Returns ()) =
     (LoggedIn alice_lower, remote_wrote (SetUser ''u2'' alice_lower) remote0) \<and>
   users alice_saved = [alice] \<and>
   handleAuth alice_saved plain True False ''alice'' ''pw'' ''u2'' 5 Throws Throws =
     (AuthError ''Username already taken.'', alice_saved)"
  by code_simp


end
